theory Spec2Isabelle
  imports Complex_Main "HOL-Library.Multiset"
begin

section \<open>JavaScript numbers\<close>

text \<open>
  A JavaScript number is an IEEE 754 binary64 value. The finite ones are modelled by
  the rational they denote (the sign of zero is not kept), the others by constructors.
\<close>

datatype jsnum = Num rat | PosInf | NegInf | NaN

definition pow2 :: "int \<Rightarrow> rat" where
  "pow2 e = (if 0 \<le> e then 2 ^ nat e else 1 / 2 ^ nat (- e))"

text \<open>Number of binary digits of a natural number.\<close>

fun bits :: "nat \<Rightarrow> nat" where
  "bits n = (if n = 0 then 0 else Suc (bits (n div 2)))"

declare bits.simps [simp del]

text \<open>The binary exponent of a positive rational: \<open>pow2 e \<le> x < pow2 (e + 1)\<close>.\<close>

definition ilog2 :: "rat \<Rightarrow> int" where
  "ilog2 x = (if 1 \<le> x then int (bits (nat \<lfloor>x\<rfloor>)) - 1
              else - int (bits (nat (\<lceil>1 / x\<rceil> - 1))))"

text \<open>Round to the nearest integer, ties to the even one.\<close>

definition roundHalfEven :: "rat \<Rightarrow> int" where
  "roundHalfEven x =
     (let f = \<lfloor>x\<rfloor>; r = x - of_int f
      in if r < 1 / 2 then f else if 1 / 2 < r then f + 1
         else if even f then f else f + 1)"

text \<open>
  Rounding of an exact result to binary64: 53 significant bits, round to nearest with
  ties to even, gradual underflow below \<open>pow2 (- 1022)\<close>, overflow to infinity.
\<close>

definition fl :: "rat \<Rightarrow> jsnum" where
  "fl x =
     (if x = 0 then Num 0
      else let e = max (ilog2 \<bar>x\<bar>) (- 1022);
               u = pow2 (e - 52);
               r = of_int (roundHalfEven (\<bar>x\<bar> / u)) * u
           in if pow2 1024 \<le> r then (if 0 < x then PosInf else NegInf)
              else Num (if 0 < x then r else - r))"

fun jneg :: "jsnum \<Rightarrow> jsnum" where
  "jneg (Num a) = Num (- a)"
| "jneg PosInf = NegInf"
| "jneg NegInf = PosInf"
| "jneg NaN = NaN"

text \<open>The sign of a number that is not NaN: \<open>True\<close> for negative.\<close>

fun jnegative :: "jsnum \<Rightarrow> bool" where
  "jnegative (Num a) = (a < 0)"
| "jnegative NegInf = True"
| "jnegative _ = False"

fun jmul :: "jsnum \<Rightarrow> jsnum \<Rightarrow> jsnum" where
  "jmul NaN _ = NaN"
| "jmul _ NaN = NaN"
| "jmul (Num a) (Num b) = fl (a * b)"
| "jmul (Num a) y = (if a = 0 then NaN else if (a < 0) = jnegative y then PosInf else NegInf)"
| "jmul x (Num b) = (if b = 0 then NaN else if (b < 0) = jnegative x then PosInf else NegInf)"
| "jmul x y = (if jnegative x = jnegative y then PosInf else NegInf)"

fun jdiv :: "jsnum \<Rightarrow> jsnum \<Rightarrow> jsnum" where
  "jdiv NaN _ = NaN"
| "jdiv _ NaN = NaN"
| "jdiv (Num a) (Num b) =
     (if b = 0 then (if a = 0 then NaN else if 0 < a then PosInf else NegInf)
      else fl (a / b))"
| "jdiv (Num a) y = Num 0"
| "jdiv x (Num b) = (if jnegative x = (b < 0) then PosInf else NegInf)"
| "jdiv x y = NaN"

text \<open>The comparisons \<open><\<close>, \<open><=\<close> and \<open>>\<close>: false as soon as one side is NaN.\<close>

fun jlt :: "jsnum \<Rightarrow> jsnum \<Rightarrow> bool" where
  "jlt NaN _ = False"
| "jlt _ NaN = False"
| "jlt (Num a) (Num b) = (a < b)"
| "jlt _ NegInf = False"
| "jlt NegInf _ = True"
| "jlt PosInf _ = False"
| "jlt _ PosInf = True"

definition jle :: "jsnum \<Rightarrow> jsnum \<Rightarrow> bool" where
  "jle x y = (x \<noteq> NaN \<and> y \<noteq> NaN \<and> \<not> jlt y x)"

definition jgt :: "jsnum \<Rightarrow> jsnum \<Rightarrow> bool" where
  "jgt x y = jlt y x"

text \<open>
  The expression \<open>parseFloat(x.toFixed(1))\<close>. \<open>toFixed(1)\<close> prints the integer \<open>n\<close>
  for which \<open>n / 10\<close> is nearest to the magnitude of \<open>x\<close> (the larger one on a tie) with
  one digit after the point, and \<open>parseFloat\<close> reads the decimal back as the nearest
  binary64. From \<open>10 ^ 21\<close> on, and for the non-finite values, \<open>toFixed\<close> prints the
  number as \<open>String\<close> does and \<open>parseFloat\<close> reads the same number back.
\<close>

definition parseFloat_toFixed1 :: "jsnum \<Rightarrow> jsnum" where
  "parseFloat_toFixed1 x =
     (case x of
        Num a \<Rightarrow>
          if 10 ^ 21 \<le> \<bar>a\<bar> then Num a
          else let r = fl (of_int \<lfloor>10 * \<bar>a\<bar> + 1 / 2\<rfloor> / 10)
               in if a < 0 then jneg r else r
      | _ \<Rightarrow> x)"


section \<open>BMI computation and classification\<close>

text \<open>
  The repository holds several revisions of its components. The definitions below are
  suffixed by the file they are taken from:
  \<^item> \<open>VF\<close>: \<open>src/components/VitalsForm.tsx\<close>; \<open>VF2\<close>: the later vitals form (\<open>unnamed/part_004\<close>);
  \<^item> \<open>GA\<close>, \<open>GA2\<close>: the two general assessment forms of \<open>GeneralAssessmentForm.tsx\<close>;
  \<^item> \<open>OA\<close>: the overweight assessment form (\<open>unnamed/part_002\<close>);
  \<^item> \<open>PD\<close>: the patient details page (\<open>unnamed/part_002\<close>);
  \<^item> \<open>PL\<close>, \<open>PL2\<close>: the two patient listings of \<open>PatientListing.tsx\<close>.
\<close>

text \<open>\<open>calculateBMI\<close> of \<open>VitalsForm.tsx\<close>: the rounded BMI and its status.\<close>

definition calculateBMI_VF :: "jsnum \<Rightarrow> jsnum \<Rightarrow> jsnum \<times> string" where
  "calculateBMI_VF heightCm weightKg =
     (let heightM = jdiv heightCm (Num 100);
          bmiValue = jdiv weightKg (jmul heightM heightM);
          roundedBMI = parseFloat_toFixed1 bmiValue;
          status = (if jlt roundedBMI (Num (37 / 2)) then ''Underweight''
                    else if jlt roundedBMI (Num 25) then ''Normal''
                    else ''Overweight'')
      in (roundedBMI, status))"

text \<open>\<open>calculateBMI\<close> of the later vitals form returns the number alone.\<close>

definition calculateBMI_VF2 :: "jsnum \<Rightarrow> jsnum \<Rightarrow> jsnum" where
  "calculateBMI_VF2 height weight =
     (let heightInMeters = jdiv height (Num 100);
          bmi = jdiv weight (jmul heightInMeters heightInMeters)
      in parseFloat_toFixed1 bmi)"

text \<open>\<open>getBmiStatus\<close> of the first patient listing and of the patient details page.\<close>

definition getBmiStatus_PL :: "jsnum \<Rightarrow> string" where
  "getBmiStatus_PL bmi =
     (if jlt bmi (Num (37 / 2)) then ''Underweight''
      else if jlt bmi (Num 25) then ''Normal''
      else ''Overweight'')"

definition getBmiStatus_PD :: "jsnum \<Rightarrow> string" where
  "getBmiStatus_PD bmi =
     (if jlt bmi (Num (37 / 2)) then ''Underweight''
      else if jlt bmi (Num 25) then ''Normal''
      else ''Overweight'')"

text \<open>\<open>getBmiStatusText\<close> of the second general assessment form.\<close>

definition getBmiStatusText_GA2 :: "jsnum \<Rightarrow> string" where
  "getBmiStatusText_GA2 bmiValue =
     (if jlt bmiValue (Num (37 / 2)) then ''Underweight''
      else if jlt bmiValue (Num 25) then ''Normal''
      else ''Overweight'')"

text \<open>
  \<open>getBmiStatus\<close> of the second patient listing takes \<open>number | undefined\<close>
  (\<open>None\<close> is \<open>undefined\<close>) and starts with the guard \<open>!bmi || isNaN(bmi)\<close>, which
  holds for \<open>undefined\<close>, zero and NaN.
\<close>

definition getBmiStatus_PL2 :: "jsnum option \<Rightarrow> string" where
  "getBmiStatus_PL2 bmi =
     (case bmi of
        None \<Rightarrow> ''No Data''
      | Some b \<Rightarrow>
          if b = Num 0 \<or> b = NaN then ''No Data''
          else if jlt b (Num (37 / 2)) then ''Underweight''
          else if jlt b (Num 25) then ''Normal''
          else ''Overweight'')"

text \<open>
  \<open>getBmiStatus\<close> of the later vitals form takes \<open>number | string\<close>; a string goes
  through the platform's \<open>parseFloat\<close>, a parameter here.
\<close>

definition getBmiStatus_VF2 :: "(string \<Rightarrow> jsnum) \<Rightarrow> jsnum + string \<Rightarrow> string" where
  "getBmiStatus_VF2 parseFloat bmi =
     (let num = (case bmi of Inl n \<Rightarrow> n | Inr s \<Rightarrow> parseFloat s)
      in if num = NaN then ''Unknown''
         else if jlt num (Num (37 / 2)) then ''Underweight''
         else if jlt num (Num 25) then ''Normal''
         else ''Overweight'')"

text \<open>The status that the later vitals form hands to the assessment form.\<close>

definition bmiStatus_VF2 :: "jsnum \<Rightarrow> string" where
  "bmiStatus_VF2 calculatedBMI =
     (if jle calculatedBMI (Num 25) then ''Normal/Underweight'' else ''Overweight'')"

section \<open>Workflow router\<close>

text \<open>The route chosen by \<open>handleSubmit\<close> of both vitals forms once the vitals are saved.\<close>

definition nextRoute_VF :: "jsnum \<Rightarrow> string" where
  "nextRoute_VF calculatedBMI =
     (if jle calculatedBMI (Num 25) then ''/general-assessment''
      else ''/overweight-assessment'')"

definition nextRoute_VF2 :: "jsnum \<Rightarrow> string" where
  "nextRoute_VF2 calculatedBMI =
     (if jle calculatedBMI (Num 25) then ''/general-assessment''
      else ''/overweight-assessment'')"

text \<open>
  The patient handed over in the navigation state, and what an assessment form
  renders: the notice that no patient data was found, the access-denied notice, or the
  form itself. \<open>None\<close> stands for an absent \<open>patient\<close> and for \<open>bmi === undefined\<close>.
\<close>

record patient_ref =
  p_id :: string
  p_patient_id :: string
  p_first_name :: string
  p_last_name :: string

datatype view = NoPatientData | AccessDenied | AssessmentForm

definition GeneralAssessmentForm_GA :: "patient_ref option \<Rightarrow> jsnum option \<Rightarrow> view" where
  "GeneralAssessmentForm_GA patient bmi =
     (case (patient, bmi) of
        (Some p, Some b) \<Rightarrow> if jgt b (Num 25) then AccessDenied else AssessmentForm
      | _ \<Rightarrow> NoPatientData)"

definition GeneralAssessmentForm_GA2 :: "patient_ref option \<Rightarrow> jsnum option \<Rightarrow> view" where
  "GeneralAssessmentForm_GA2 patient bmi =
     (case (patient, bmi) of
        (Some p, Some b) \<Rightarrow>
          (let calculatedStatus = getBmiStatusText_GA2 b
           in if calculatedStatus = ''Overweight'' then AccessDenied else AssessmentForm)
      | _ \<Rightarrow> NoPatientData)"

definition OverweightAssessmentForm_OA :: "patient_ref option \<Rightarrow> jsnum option \<Rightarrow> view" where
  "OverweightAssessmentForm_OA patient bmi =
     (case (patient, bmi) of
        (Some p, Some b) \<Rightarrow> if jle b (Num 25) then AccessDenied else AssessmentForm
      | _ \<Rightarrow> NoPatientData)"

section \<open>Response normalizer\<close>

text \<open>
  A response body, as \<open>JSON.parse\<close> delivers it. The pairs of an object are its
  properties in enumeration order, which is the order of \<open>Object.values\<close>; the keys of
  an object are distinct. \<open>JUndefined\<close> stands for a missing body or property.
\<close>

datatype json =
    JUndefined
  | JNull
  | JBool bool
  | JNum jsnum
  | JStr string
  | JArr "json list"
  | JObj "(string \<times> json) list"

text \<open>
  Reading a property with \<open>data?.key\<close>: \<open>undefined\<close> for \<open>null\<close> and \<open>undefined\<close> (the
  optional chaining) and for a value that has no such property.
\<close>

definition getProp :: "json \<Rightarrow> string \<Rightarrow> json" where
  "getProp data key =
     (case data of
        JObj kvs \<Rightarrow> (case map_of kvs key of Some v \<Rightarrow> v | None \<Rightarrow> JUndefined)
      | _ \<Rightarrow> JUndefined)"

fun isArray :: "json \<Rightarrow> bool" where
  "isArray (JArr xs) = True"
| "isArray _ = False"

fun elements :: "json \<Rightarrow> json list" where
  "elements (JArr xs) = xs"
| "elements _ = []"

text \<open>The loop \<open>for (const value of values) if (Array.isArray(value)) return value\<close>.\<close>

fun firstArray :: "json list \<Rightarrow> json list option" where
  "firstArray [] = None"
| "firstArray (JArr xs # values) = Some xs"
| "firstArray (value # values) = firstArray values"

text \<open>\<open>Object.values\<close> of a value with \<open>typeof value === 'object' && value !== null\<close>.\<close>

fun objectValues :: "json \<Rightarrow> json list option" where
  "objectValues (JObj kvs) = Some (map snd kvs)"
| "objectValues (JArr xs) = Some xs"
| "objectValues _ = None"

text \<open>The second loop: the first array among the values of the values that are objects.\<close>

fun firstNestedArray :: "json list \<Rightarrow> json list option" where
  "firstNestedArray [] = None"
| "firstNestedArray (value # values) =
     (case objectValues value of
        None \<Rightarrow> firstNestedArray values
      | Some nestedValues \<Rightarrow>
          (case firstArray nestedValues of
             Some xs \<Rightarrow> Some xs
           | None \<Rightarrow> firstNestedArray values))"

text \<open>\<open>extractArrayFromResponse\<close> of the later vitals form (\<open>unnamed/part_004\<close>).\<close>

definition extractArrayFromResponse_VF2 :: "json \<Rightarrow> json list" where
  "extractArrayFromResponse_VF2 data =
     (if isArray data then elements data
      else if isArray (getProp data ''results'') then elements (getProp data ''results'')
      else if isArray (getProp data ''data'') then elements (getProp data ''data'')
      else (case objectValues data of
              None \<Rightarrow> []
            | Some values \<Rightarrow>
                (case firstArray values of
                   Some xs \<Rightarrow> xs
                 | None \<Rightarrow>
                     (case firstNestedArray values of
                        Some xs \<Rightarrow> xs
                      | None \<Rightarrow> []))))"

text \<open>
  \<open>extractArrayFromResponse\<close> of the first patient listing; the patient details page
  has the same function.
\<close>

definition extractArrayFromResponse_PL :: "json \<Rightarrow> json list" where
  "extractArrayFromResponse_PL data =
     (if isArray data then elements data
      else if isArray (getProp data ''results'') then elements (getProp data ''results'')
      else if isArray (getProp data ''data'') then elements (getProp data ''data'')
      else [])"

text \<open>
  The algorithm of the specification, in its words: the payload itself if it is a
  list; else \<open>payload.results\<close> if that is a list; else \<open>payload.data\<close> if that is a list;
  else the first list-valued entry among the key/value pairs of the payload (depth 1);
  else the first list-valued entry one level deeper (depth 2); else the empty list.
\<close>

definition entriesAtDepth1 :: "json \<Rightarrow> json list" where
  "entriesAtDepth1 payload = (case objectValues payload of None \<Rightarrow> [] | Some vs \<Rightarrow> vs)"

definition entriesAtDepth2 :: "json \<Rightarrow> json list" where
  "entriesAtDepth2 payload = concat (map entriesAtDepth1 (entriesAtDepth1 payload))"

definition extractRecords_spec :: "json \<Rightarrow> json list" where
  "extractRecords_spec payload =
     (if isArray payload then elements payload
      else if isArray (getProp payload ''results'') then elements (getProp payload ''results'')
      else if isArray (getProp payload ''data'') then elements (getProp payload ''data'')
      else (case find isArray (entriesAtDepth1 payload) of
              Some l \<Rightarrow> elements l
            | None \<Rightarrow>
                (case find isArray (entriesAtDepth2 payload) of
                   Some l \<Rightarrow> elements l
                 | None \<Rightarrow> [])))"

section \<open>Visit date guard and submission\<close>

text \<open>Truthiness of a value, as \<open>if (v)\<close>, \<open>v && \<dots>\<close> and \<open>filter(v => v)\<close> test it.\<close>

fun truthy :: "json \<Rightarrow> bool" where
  "truthy JUndefined = False"
| "truthy JNull = False"
| "truthy (JBool b) = b"
| "truthy (JNum n) = (n \<noteq> Num 0 \<and> n \<noteq> NaN)"
| "truthy (JStr s) = (s \<noteq> [])"
| "truthy (JArr xs) = True"
| "truthy (JObj kvs) = True"

text \<open>
  \<open>String.prototype.trim\<close>. Strings are lists of 8-bit characters here, so the white
  space is the ASCII one (space, tab, line feed, vertical tab, form feed, carriage
  return); the white space of Unicode beyond ASCII, which \<open>trim\<close> strips as well, has no
  character in this model.
\<close>

definition isWhiteSpace :: "char \<Rightarrow> bool" where
  "isWhiteSpace c = (c \<in> {CHR '' '', CHR 0x09, CHR 0x0A, CHR 0x0B, CHR 0x0C, CHR 0x0D})"

definition trim :: "string \<Rightarrow> string" where
  "trim s = rev (dropWhile isWhiteSpace (rev (dropWhile isWhiteSpace s)))"

text \<open>
  What a submit handler does: the write requests it sends to the backend, in order, and
  what the user sees afterwards. \<open>Threw\<close> is an exception that leaves the handler.
\<close>

record vitals_errors =
  err_patient :: string
  err_height_cm :: string
  err_weight_kg :: string
  err_visit_date :: string

datatype outcome =
    ShowError string
  | FieldErrors vitals_errors
  | Threw
  | Navigate string "patient_ref option" "(jsnum \<times> string) option"

text \<open>The three-way envelope test that the forms write inline.\<close>

definition inlineArray :: "json \<Rightarrow> json list" where
  "inlineArray data =
     (if isArray data then elements data
      else if isArray (getProp data ''results'') then elements (getProp data ''results'')
      else if isArray (getProp data ''data'') then elements (getProp data ''data'')
      else [])"

text \<open>
  The date of one fetched record: \<open>new Date(r.visit_date).toISOString().split('T')[0]\<close>,
  and the raw \<open>r.visit_date\<close> when \<open>toISOString\<close> throws on an invalid date. The
  platform's date conversion is the parameter \<open>toISODate\<close> (\<open>None\<close>: it throws).
\<close>

definition recordDate :: "(json \<Rightarrow> string option) \<Rightarrow> json \<Rightarrow> json" where
  "recordDate toISODate r =
     (let visit_date = getProp r ''visit_date''
      in case toISODate visit_date of Some day \<Rightarrow> JStr day | None \<Rightarrow> visit_date)"

text \<open>Reading a property of \<open>null\<close> or \<open>undefined\<close> without \<open>?.\<close> throws a TypeError.\<close>

definition hasNoProperties :: "json \<Rightarrow> bool" where
  "hasNoProperties v = (v = JNull \<or> v = JUndefined)"

subsection \<open>The vitals form of \<open>VitalsForm.tsx\<close>\<close>

record vitals_form =
  vf_visit_date :: string
  vf_height_cm :: string
  vf_weight_kg :: string

record vitals_state =
  vs_patient :: "patient_ref option"
  vs_formData :: vitals_form
  vs_existingDates :: "json list"

record vitals_data =
  vd_patient_id :: string
  vd_visit_date :: string
  vd_height_cm :: jsnum
  vd_weight_kg :: jsnum
  vd_bmi :: jsnum

text \<open>
  \<open>fetchExistingVitals\<close>: the new value of \<open>existingDates\<close>, given the outcome of
  \<open>vitalsApi.getVitals\<close> (\<open>Inl\<close>: the request failed, \<open>Inr\<close>: the response body). An
  exception inside the \<open>try\<close> block ends in the \<open>catch\<close> that sets the empty list.
\<close>

definition fetchExistingVitals_VF ::
  "(json \<Rightarrow> string option) \<Rightarrow> patient_ref option \<Rightarrow> 'e + json \<Rightarrow> json list \<Rightarrow> json list" where
  "fetchExistingVitals_VF toISODate patient response existingDates =
     (case patient of
        None \<Rightarrow> existingDates
      | Some p \<Rightarrow>
          if p_id p = [] then existingDates
          else (case response of
                  Inl error \<Rightarrow> []
                | Inr data \<Rightarrow>
                    if \<not> truthy data then existingDates
                    else let vitalsArray = inlineArray data
                         in if list_ex hasNoProperties vitalsArray then []
                            else map (recordDate toISODate) vitalsArray))"

text \<open>
  \<open>existingDates.some(existingDate => existingDate.trim() === normalizedDate)\<close>;
  \<open>None\<close> when \<open>trim\<close> is called on an entry that is not a string.
\<close>

fun dateExists_VF :: "json list \<Rightarrow> string \<Rightarrow> bool option" where
  "dateExists_VF [] normalizedDate = Some False"
| "dateExists_VF (JStr existingDate # ds) normalizedDate =
     (if trim existingDate = normalizedDate then Some True
      else dateExists_VF ds normalizedDate)"
| "dateExists_VF (d # ds) normalizedDate = None"

text \<open>
  \<open>handleSubmit\<close>. Parameters: the platform's \<open>parseFloat\<close>, the backend call
  \<open>vitalsApi.createVitals\<close>, and the message that the \<open>catch\<close> block assembles from a
  failed write. Of the navigation state the patient, the BMI and its status are kept.
\<close>

definition handleSubmit_VF ::
  "(string \<Rightarrow> jsnum) \<Rightarrow> (vitals_data \<Rightarrow> 'e + json) \<Rightarrow> ('e \<Rightarrow> string) \<Rightarrow> vitals_state
     \<Rightarrow> vitals_data list \<times> outcome" where
  "handleSubmit_VF parseFloat createVitals errorMessage st =
     (case vs_patient st of
        None \<Rightarrow> ([], ShowError ''No patient data found. Please register the patient first.'')
      | Some patient \<Rightarrow>
          let formData = vs_formData st in
          if p_id patient = [] then
            ([], ShowError ''Invalid patient data. Patient ID is missing.'')
          else if vf_visit_date formData = [] \<or> vf_height_cm formData = []
                  \<or> vf_weight_kg formData = [] then
            ([], ShowError ''All fields are mandatory.'')
          else
            let heightNum = parseFloat (vf_height_cm formData);
                weightNum = parseFloat (vf_weight_kg formData)
            in if heightNum = NaN \<or> weightNum = NaN \<or> jle heightNum (Num 0)
                  \<or> jle weightNum (Num 0) then
                 ([], ShowError ''Height and weight must be valid numbers greater than zero.'')
               else
                 let normalizedDate = trim (vf_visit_date formData)
                 in case dateExists_VF (vs_existingDates st) normalizedDate of
                      None \<Rightarrow> ([], Threw)
                    | Some True \<Rightarrow>
                        ([], ShowError (''A vitals entry already exists for ''
                               @ vf_visit_date formData
                               @ ''. Please select a different date.''))
                    | Some False \<Rightarrow>
                        let (calculatedBMI, status) = calculateBMI_VF heightNum weightNum;
                            vitalsData = \<lparr> vd_patient_id = p_id patient,
                                           vd_visit_date = vf_visit_date formData,
                                           vd_height_cm = heightNum,
                                           vd_weight_kg = weightNum,
                                           vd_bmi = calculatedBMI \<rparr>
                        in case createVitals vitalsData of
                             Inl err \<Rightarrow> ([vitalsData], ShowError (errorMessage err))
                           | Inr response \<Rightarrow>
                               ([vitalsData],
                                Navigate (nextRoute_VF calculatedBMI) (Some patient)
                                  (Some (calculatedBMI, status))))"

subsection \<open>The second general assessment form\<close>

record general_form =
  ga_visit_date :: string
  ga_general_health :: string
  ga_using_drugs :: string
  ga_comments :: string

record general_state =
  gs_patient :: "patient_ref option"
  gs_formData :: general_form
  gs_existingDates :: "json list"

record general_data =
  gd_patient_id :: string
  gd_visit_date :: string
  gd_general_health :: string
  gd_using_drugs :: string
  gd_comments :: string

definition fetchExistingAssessments_GA2 ::
  "(json \<Rightarrow> string option) \<Rightarrow> patient_ref option \<Rightarrow> 'e + json \<Rightarrow> json list \<Rightarrow> json list" where
  "fetchExistingAssessments_GA2 toISODate patient response existingDates =
     (case patient of
        None \<Rightarrow> existingDates
      | Some p \<Rightarrow>
          if p_id p = [] then existingDates
          else (case response of
                  Inl error \<Rightarrow> []
                | Inr data \<Rightarrow>
                    let assessmentsArray = inlineArray data
                    in if list_ex hasNoProperties assessmentsArray then []
                       else filter truthy (map (recordDate toISODate) assessmentsArray)))"

definition handleSubmit_GA2 ::
  "(general_data \<Rightarrow> 'e + json) \<Rightarrow> ('e \<Rightarrow> string) \<Rightarrow> general_state
     \<Rightarrow> general_data list \<times> outcome" where
  "handleSubmit_GA2 createGeneralAssessment errorMessage st =
     (let formData = gs_formData st in
      case gs_patient st of
        None \<Rightarrow> ([], ShowError ''Patient data not found'')
      | Some patient \<Rightarrow>
          if p_id patient = [] then ([], ShowError ''Patient data not found'')
          else if ga_visit_date formData = [] then ([], ShowError ''Visit date is required'')
          else if ga_general_health formData = [] then
            ([], ShowError ''General health assessment is required'')
          else if ga_using_drugs formData = [] then
            ([], ShowError ''Please specify if the patient is using any drugs'')
          else if JStr (ga_visit_date formData) \<in> set (gs_existingDates st) then
            ([], ShowError (''A general assessment already exists for ''
                   @ ga_visit_date formData
                   @ ''. Please select a different date.''))
          else
            let assessmentData = \<lparr> gd_patient_id = p_id patient,
                                    gd_visit_date = ga_visit_date formData,
                                    gd_general_health = trim (ga_general_health formData),
                                    gd_using_drugs = trim (ga_using_drugs formData),
                                    gd_comments = trim (ga_comments formData) \<rparr>
            in case createGeneralAssessment assessmentData of
                 Inl err \<Rightarrow> ([assessmentData], ShowError (errorMessage err))
               | Inr response \<Rightarrow>
                   ([assessmentData], Navigate ''/patient-details'' (Some patient) None))"

subsection \<open>The later vitals form (\<open>unnamed/part_004\<close>)\<close>

text \<open>
  \<open>isValidUUID\<close>: the regular expression
  \<open>/^[0-9a-f]{8}-[0-9a-f]{4}-[1-5][0-9a-f]{3}-[89ab][0-9a-f]{3}-[0-9a-f]{12}$/i\<close>.
\<close>

definition isHexDigit :: "char \<Rightarrow> bool" where
  "isHexDigit c = (c \<in> set ''0123456789abcdefABCDEF'')"

definition isValidUUID :: "string \<Rightarrow> bool" where
  "isValidUUID str =
     (length str = 36
      \<and> list_all isHexDigit (take 8 str) \<and> str ! 8 = CHR ''-''
      \<and> list_all isHexDigit (take 4 (drop 9 str)) \<and> str ! 13 = CHR ''-''
      \<and> str ! 14 \<in> set ''12345'' \<and> list_all isHexDigit (take 3 (drop 15 str))
      \<and> str ! 18 = CHR ''-''
      \<and> str ! 19 \<in> set ''89abAB'' \<and> list_all isHexDigit (take 3 (drop 20 str))
      \<and> str ! 23 = CHR ''-''
      \<and> list_all isHexDigit (drop 24 str))"

text \<open>
  Dates. A \<open>Date\<close> is its time value, in milliseconds since the epoch. The platform's
  \<open>new Date(dateString)\<close> is the parameter \<open>parseDate\<close> (\<open>None\<close>: an invalid date). The
  local time zone is a fixed offset east of UTC, in milliseconds (daylight saving
  changes are not modelled); \<open>setHours(0, 0, 0, 0)\<close> moves a date to the start of its
  local day.
\<close>

definition msPerDay :: int where
  "msPerDay = 86400000"

definition setHours0 :: "int \<Rightarrow> int \<Rightarrow> int" where
  "setHours0 utcOffset t = ((t + utcOffset) div msPerDay) * msPerDay - utcOffset"

definition isFutureDate :: "(string \<Rightarrow> int option) \<Rightarrow> int \<Rightarrow> int \<Rightarrow> string \<Rightarrow> bool" where
  "isFutureDate parseDate utcOffset now dateString =
     (case parseDate dateString of
        None \<Rightarrow> False
      | Some inputDate \<Rightarrow> setHours0 utcOffset now < setHours0 utcOffset inputDate)"

record vitals_form2 =
  vf2_visit_date :: string
  vf2_height_cm :: string
  vf2_weight_kg :: string
  vf2_bmi :: jsnum

record vitals_state2 =
  vs2_patient :: "patient_ref option"
  vs2_patientUUID :: string
  vs2_formData :: vitals_form2
  vs2_existingDates :: "string list"

definition noErrors :: vitals_errors where
  "noErrors = \<lparr> err_patient = [], err_height_cm = [], err_weight_kg = [],
                err_visit_date = [] \<rparr>"

text \<open>\<open>validateForm\<close>: the new error messages and whether the form is valid.\<close>

definition validateForm_VF2 ::
  "(string \<Rightarrow> jsnum) \<Rightarrow> (string \<Rightarrow> int option) \<Rightarrow> int \<Rightarrow> int \<Rightarrow> vitals_state2
     \<Rightarrow> vitals_errors \<times> bool" where
  "validateForm_VF2 parseFloat parseDate utcOffset now st =
     (let formData = vs2_formData st;
          (e1, v1) =
            (if vs2_patientUUID st = [] \<or> \<not> isValidUUID (vs2_patientUUID st)
             then (noErrors\<lparr>err_patient := ''Valid patient UUID is required''\<rparr>, False)
             else (noErrors, True));
          height = parseFloat (vf2_height_cm formData);
          (e2, v2) =
            (if vf2_height_cm formData = [] \<or> height = NaN
             then (e1\<lparr>err_height_cm := ''Please enter a valid height''\<rparr>, False)
             else if jlt height (Num 50) \<or> jgt height (Num 250)
             then (e1\<lparr>err_height_cm := ''Height must be between 50cm and 250cm''\<rparr>, False)
             else (e1, v1));
          weight = parseFloat (vf2_weight_kg formData);
          (e3, v3) =
            (if vf2_weight_kg formData = [] \<or> weight = NaN
             then (e2\<lparr>err_weight_kg := ''Please enter a valid weight''\<rparr>, False)
             else if jlt weight (Num 2) \<or> jgt weight (Num 300)
             then (e2\<lparr>err_weight_kg := ''Weight must be between 2kg and 300kg''\<rparr>, False)
             else (e2, v2));
          (e4, v4) =
            (if isFutureDate parseDate utcOffset now (vf2_visit_date formData)
             then (e3\<lparr>err_visit_date := ''Visit date cannot be in the future''\<rparr>, False)
             else (e3, v3));
          (e5, v5) =
            (if vf2_visit_date formData \<in> set (vs2_existingDates st)
             then (e4\<lparr>err_visit_date := ''Vitals already recorded for this date''\<rparr>, False)
             else (e4, v4))
      in (e5, v5))"

text \<open>
  \<open>handleSubmit\<close>: nothing is sent unless \<open>validateForm\<close> succeeds. The write carries
  the BMI kept in the form state; the route is chosen from a fresh \<open>calculateBMI\<close>.
\<close>

definition handleSubmit_VF2 ::
  "(string \<Rightarrow> jsnum) \<Rightarrow> (string \<Rightarrow> int option) \<Rightarrow> int \<Rightarrow> int
     \<Rightarrow> (vitals_data \<Rightarrow> 'e + json) \<Rightarrow> ('e \<Rightarrow> string) \<Rightarrow> vitals_state2
     \<Rightarrow> vitals_data list \<times> outcome" where
  "handleSubmit_VF2 parseFloat parseDate utcOffset now createVitals errorMessage st =
     (let (newErrors, isValid) = validateForm_VF2 parseFloat parseDate utcOffset now st;
          formData = vs2_formData st
      in if \<not> isValid then ([], FieldErrors newErrors)
         else
           let submissionData = \<lparr> vd_patient_id = vs2_patientUUID st,
                                   vd_visit_date = vf2_visit_date formData,
                                   vd_height_cm = parseFloat (vf2_height_cm formData),
                                   vd_weight_kg = parseFloat (vf2_weight_kg formData),
                                   vd_bmi = vf2_bmi formData \<rparr>
           in case createVitals submissionData of
                Inl error \<Rightarrow> ([submissionData], ShowError (errorMessage error))
              | Inr response \<Rightarrow>
                  let calculatedBMI = calculateBMI_VF2 (parseFloat (vf2_height_cm formData))
                                        (parseFloat (vf2_weight_kg formData));
                      bmiStatus = bmiStatus_VF2 calculatedBMI
                  in ([submissionData],
                      Navigate (nextRoute_VF2 calculatedBMI) (vs2_patient st)
                        (Some (calculatedBMI, bmiStatus))))"

subsection \<open>The date input of the forms\<close>

text \<open>
  The current calendar day, as a day number since the epoch, in the local time zone.
\<close>

definition localDay :: "int \<Rightarrow> int \<Rightarrow> int" where
  "localDay utcOffset now = (now + utcOffset) div msPerDay"

text \<open>
  The forms print the current day in two ways. \<open>getTodayDate\<close> of the later vitals form
  prints the local calendar day, from \<open>getFullYear\<close>, \<open>getMonth\<close> and \<open>getDate\<close>. The
  other forms write \<open>new Date().toISOString().split('T')[0]\<close>, the calendar day in UTC.
  The platform's printing of a day number as \<open>YYYY-MM-DD\<close> is the parameter \<open>isoDate\<close>.
\<close>

definition getTodayDate :: "(int \<Rightarrow> string) \<Rightarrow> int \<Rightarrow> int \<Rightarrow> string" where
  "getTodayDate isoDate utcOffset now = isoDate (localDay utcOffset now)"

definition utcToday :: "(int \<Rightarrow> string) \<Rightarrow> int \<Rightarrow> string" where
  "utcToday isoDate now = isoDate (now div msPerDay)"

text \<open>
  The date input of the general assessment form is rendered with \<open>required\<close> and
  \<open>max={new Date().toISOString().split('T')[0]}\<close>, in a form without \<open>noValidate\<close>: the
  browser fires the submit event only for a value that is a date and is not after
  \<open>max\<close>.
\<close>

definition dateInputAccepts :: "(string \<Rightarrow> int option) \<Rightarrow> string \<Rightarrow> string \<Rightarrow> bool" where
  "dateInputAccepts parseDate maxDate value =
     (case parseDate value of
        None \<Rightarrow> False
      | Some v \<Rightarrow> (case parseDate maxDate of None \<Rightarrow> True | Some m \<Rightarrow> v \<le> m))"

text \<open>The form data with which the general assessment form starts.\<close>

definition initialFormData_GA2 :: "(int \<Rightarrow> string) \<Rightarrow> int \<Rightarrow> general_form" where
  "initialFormData_GA2 isoDate now =
     \<lparr> ga_visit_date = utcToday isoDate now, ga_general_health = [],
       ga_using_drugs = [], ga_comments = [] \<rparr>"

section \<open>Aggregator\<close>

text \<open>
  \<open>Array.prototype.sort\<close> with a compare function: a stable sort; a compare result
  that is positive puts the second argument first. The model is a stable insertion
  sort; for a compare function that orders by a key, as the ones below do on valid
  dates, every stable sort returns the same list. A compare result of NaN is read as
  zero here; with such results the order that an engine returns is its own, and
  nothing below relies on it.
\<close>

fun insertSorted :: "('a \<Rightarrow> 'a \<Rightarrow> bool) \<Rightarrow> 'a \<Rightarrow> 'a list \<Rightarrow> 'a list" where
  "insertSorted staysBefore x [] = [x]"
| "insertSorted staysBefore x (y # ys) =
     (if staysBefore x y then x # y # ys else y # insertSorted staysBefore x ys)"

definition jsSort :: "('a \<Rightarrow> 'a \<Rightarrow> jsnum) \<Rightarrow> 'a list \<Rightarrow> 'a list" where
  "jsSort compareFn xs =
     foldr (insertSorted (\<lambda>a b. \<not> jgt (compareFn a b) (Num 0))) xs []"

text \<open>The expression \<open>a || b\<close>.\<close>

definition orElse :: "json \<Rightarrow> json \<Rightarrow> json" where
  "orElse a b = (if truthy a then a else b)"

text \<open>
  The time value \<open>new Date(v).getTime()\<close> is the platform's, the parameter \<open>dateTime\<close>
  below (\<open>None\<close>: NaN, an invalid date). The difference of two time values keeps its
  sign under rounding, so it is taken exactly.
\<close>

definition timeDiff :: "int option \<Rightarrow> int option \<Rightarrow> jsnum" where
  "timeDiff a b =
     (case (a, b) of (Some x, Some y) \<Rightarrow> Num (of_int (x - y)) | _ \<Rightarrow> NaN)"

text \<open>
  The BMI of a vitals record, a number or a string as the interface \<open>Vitals\<close> declares
  it (\<open>None\<close>: no such value); a string is read with \<open>parseFloat\<close>.
\<close>

definition bmiOf :: "(string \<Rightarrow> jsnum) \<Rightarrow> json \<Rightarrow> jsnum option" where
  "bmiOf parseFloat v =
     (case getProp v ''bmi'' of
        JNum n \<Rightarrow> Some n
      | JStr s \<Rightarrow> Some (parseFloat s)
      | _ \<Rightarrow> None)"

text \<open>
  A row of the patient listing. Fields that a listing does not fill are \<open>JUndefined\<close>
  or \<open>None\<close>. The age, which depends on the current date, is left out.
\<close>

record patient_row =
  pr_id :: json
  pr_patient_id :: json
  pr_first_name :: json
  pr_last_name :: json
  pr_middle_name :: json
  pr_date_of_birth :: json
  pr_gender :: json
  pr_registration_date :: json
  pr_created_at :: json
  pr_last_bmi :: "jsnum option"
  pr_last_bmi_status :: "string option"
  pr_last_vitals_date :: json
  pr_last_assessment_date :: json
  pr_last_assessment_type :: "string option"

text \<open>The backend: the outcome of each read (\<open>Inl\<close>: the request failed).\<close>

record 'e backend =
  be_getPatients :: "'e + json"
  be_getVitals :: "json \<Rightarrow> 'e + json"
  be_getOverweightAssessments :: "json \<Rightarrow> 'e + json"
  be_getGeneralAssessments :: "json \<Rightarrow> 'e + json"

subsection \<open>The first patient listing\<close>

text \<open>\<open>String.prototype.toUpperCase\<close> on ASCII letters.\<close>

definition toUpperCase :: "string \<Rightarrow> string" where
  "toUpperCase =
     map (\<lambda>c. if 97 \<le> (of_char c :: nat) \<and> (of_char c :: nat) \<le> 122
              then char_of (of_char c - (32 :: nat)) else c)"

text \<open>
  The projection of one element of the patients response (\<open>None\<close>: a TypeError, which
  ends \<open>fetchPatients\<close> in its \<open>catch\<close>).
\<close>

definition basicPatient_PL :: "json \<Rightarrow> patient_row option" where
  "basicPatient_PL p =
     (if hasNoProperties p then None
      else
        let row = \<lambda>patientId.
              \<lparr> pr_id = getProp p ''id'',
                pr_patient_id = patientId,
                pr_first_name = getProp p ''first_name'',
                pr_last_name = getProp p ''last_name'',
                pr_middle_name = getProp p ''middle_name'',
                pr_date_of_birth = getProp p ''date_of_birth'',
                pr_gender = getProp p ''gender'',
                pr_registration_date =
                  orElse (getProp p ''registration_date'') (getProp p ''created_at''),
                pr_created_at = getProp p ''created_at'',
                pr_last_bmi = None,
                pr_last_bmi_status = None,
                pr_last_vitals_date = JUndefined,
                pr_last_assessment_date = JUndefined,
                pr_last_assessment_type = None \<rparr>
        in if truthy (getProp p ''patient_id'') then Some (row (getProp p ''patient_id''))
           else (case getProp p ''id'' of
                   JStr s \<Rightarrow> Some (row (JStr (''PAT'' @ toUpperCase (take 8 s))))
                 | _ \<Rightarrow> None))"

text \<open>
  The compare function
  \<open>new Date(b.visit_date || b.created_at).getTime() - new Date(a.visit_date || a.created_at).getTime()\<close>.
\<close>

definition compareByDate_PL :: "(json \<Rightarrow> int option) \<Rightarrow> json \<Rightarrow> json \<Rightarrow> jsnum" where
  "compareByDate_PL dateTime a b =
     timeDiff (dateTime (orElse (getProp b ''visit_date'') (getProp b ''created_at'')))
              (dateTime (orElse (getProp a ''visit_date'') (getProp a ''created_at'')))"

text \<open>
  The inner \<open>try\<close> block: the overweight assessments first, the general assessments only
  when there is no overweight assessment. A failed request or a TypeError on an element
  without properties leaves the row as it is.
\<close>

definition assessmentDetails_PL ::
  "(json \<Rightarrow> int option) \<Rightarrow> 'e backend \<Rightarrow> patient_row \<Rightarrow> patient_row" where
  "assessmentDetails_PL dateTime be patient =
     (case be_getOverweightAssessments be (pr_id patient) of
        Inl error \<Rightarrow> patient
      | Inr overweightData \<Rightarrow>
          let overweightArray = extractArrayFromResponse_PL overweightData
          in if overweightArray \<noteq> [] then
               (if list_ex hasNoProperties overweightArray then patient
                else case jsSort (compareByDate_PL dateTime) overweightArray of
                       [] \<Rightarrow> patient
                     | latestAssessment # rest \<Rightarrow>
                         patient\<lparr> pr_last_assessment_date :=
                                    orElse (getProp latestAssessment ''visit_date'')
                                           (getProp latestAssessment ''created_at''),
                                  pr_last_assessment_type := Some ''Overweight'' \<rparr>)
             else
               (case be_getGeneralAssessments be (pr_id patient) of
                  Inl error \<Rightarrow> patient
                | Inr generalData \<Rightarrow>
                    let generalArray = extractArrayFromResponse_PL generalData
                    in if generalArray = [] \<or> list_ex hasNoProperties generalArray
                       then patient
                       else case jsSort (compareByDate_PL dateTime) generalArray of
                              [] \<Rightarrow> patient
                            | latestAssessment # rest \<Rightarrow>
                                patient\<lparr> pr_last_assessment_date :=
                                           orElse (getProp latestAssessment ''visit_date'')
                                                  (getProp latestAssessment ''created_at''),
                                         pr_last_assessment_type := Some ''General'' \<rparr>))"

text \<open>The callback that \<open>fetchPatients\<close> maps over the rows.\<close>

definition patientWithDetails_PL ::
  "(string \<Rightarrow> jsnum) \<Rightarrow> (json \<Rightarrow> int option) \<Rightarrow> 'e backend \<Rightarrow> patient_row \<Rightarrow> patient_row" where
  "patientWithDetails_PL parseFloat dateTime be patient =
     (case be_getVitals be (pr_id patient) of
        Inl error \<Rightarrow> patient
      | Inr vitalsData \<Rightarrow>
          let vitalsArray = extractArrayFromResponse_PL vitalsData
          in if vitalsArray = [] then assessmentDetails_PL dateTime be patient
             else if list_ex hasNoProperties vitalsArray then patient
             else case jsSort (compareByDate_PL dateTime) vitalsArray of
                    [] \<Rightarrow> assessmentDetails_PL dateTime be patient
                  | latestVital # rest \<Rightarrow>
                      let last_bmi = bmiOf parseFloat latestVital;
                          shown = (case last_bmi of
                                     None \<Rightarrow> Num 0
                                   | Some b \<Rightarrow> if b = Num 0 \<or> b = NaN then Num 0 else b)
                      in assessmentDetails_PL dateTime be
                           (patient\<lparr> pr_last_bmi := last_bmi,
                                     pr_last_bmi_status := Some (getBmiStatus_PL shown),
                                     pr_last_vitals_date :=
                                       orElse (getProp latestVital ''visit_date'')
                                              (getProp latestVital ''created_at'') \<rparr>))"

text \<open>
  \<open>fetchPatients\<close>: the list handed to \<open>setPatients\<close> (\<open>None\<close>: the \<open>catch\<close> block ran and
  the state keeps its old list). \<open>Promise.all\<close> returns the results in the order of the
  promises it was given, whatever the order in which they settle.
\<close>

definition fetchPatients_PL ::
  "(string \<Rightarrow> jsnum) \<Rightarrow> (json \<Rightarrow> int option) \<Rightarrow> 'e backend \<Rightarrow> patient_row list option" where
  "fetchPatients_PL parseFloat dateTime be =
     (case be_getPatients be of
        Inl error \<Rightarrow> None
      | Inr data \<Rightarrow>
          let patientsArray = extractArrayFromResponse_PL data;
              basicPatients = map basicPatient_PL patientsArray
          in if list_ex (\<lambda>row. row = None) basicPatients then None
             else Some (map (patientWithDetails_PL parseFloat dateTime be)
                          (map the basicPatients)))"

subsection \<open>The second patient listing\<close>

text \<open>\<open>getDateValue\<close>: the time value of a date string, 0 when absent or invalid.\<close>

definition getDateValue :: "(json \<Rightarrow> int option) \<Rightarrow> json \<Rightarrow> int" where
  "getDateValue dateTime dateString =
     (if \<not> truthy dateString then 0
      else case dateTime dateString of None \<Rightarrow> 0 | Some t \<Rightarrow> t)"

text \<open>The compare function of \<open>fetchPatientVitals\<close>, newest first.\<close>

definition compareVitals_PL2 :: "(json \<Rightarrow> int option) \<Rightarrow> json \<Rightarrow> json \<Rightarrow> jsnum" where
  "compareVitals_PL2 dateTime a b =
     (let dateA = getDateValue dateTime
                    (orElse (getProp a ''visit_date'') (getProp a ''created_at''));
          dateB = getDateValue dateTime
                    (orElse (getProp b ''visit_date'') (getProp b ''created_at''))
      in Num (of_int (dateB - dateA)))"

text \<open>
  \<open>fetchPatientVitals\<close>: the most recent vitals record, \<open>None\<close> for \<open>null\<close>. Reading
  \<open>response.data.results\<close> of a missing body, or a property of an element without
  properties in the compare function, throws and ends in the \<open>catch\<close>.
\<close>

definition fetchPatientVitals_PL2 :: "(json \<Rightarrow> int option) \<Rightarrow> 'e + json \<Rightarrow> json option" where
  "fetchPatientVitals_PL2 dateTime response =
     (case response of
        Inl error \<Rightarrow> None
      | Inr data \<Rightarrow>
          if hasNoProperties data then None
          else let vitalsArray = inlineArray data
               in if vitalsArray = [] then None
                  else if 2 \<le> length vitalsArray \<and> list_ex hasNoProperties vitalsArray
                  then None
                  else (case jsSort (compareVitals_PL2 dateTime) vitalsArray of
                          [] \<Rightarrow> None
                        | latest # rest \<Rightarrow> Some latest))"

text \<open>
  An assessment as \<open>fetchPatientAssessments\<close> collects it: the fetched record with its
  kind and with \<open>visit_date\<close> replaced by \<open>visit_date || created_at\<close>.
\<close>

record assessment_entry =
  ae_record :: json
  ae_type :: string
  ae_visit_date :: json

definition tagged :: "string \<Rightarrow> json \<Rightarrow> assessment_entry" where
  "tagged kind assessment =
     \<lparr> ae_record = assessment, ae_type = kind,
       ae_visit_date = orElse (getProp assessment ''visit_date'')
                              (getProp assessment ''created_at'') \<rparr>"

definition compareAssessments_PL2 ::
  "(json \<Rightarrow> int option) \<Rightarrow> assessment_entry \<Rightarrow> assessment_entry \<Rightarrow> jsnum" where
  "compareAssessments_PL2 dateTime a b =
     (let dateA = getDateValue dateTime
                    (orElse (ae_visit_date a) (getProp (ae_record a) ''created_at''));
          dateB = getDateValue dateTime
                    (orElse (ae_visit_date b) (getProp (ae_record b) ''created_at''))
      in Num (of_int (dateB - dateA)))"

text \<open>
  The records of one settled request: none when it was rejected or has no body.
\<close>

definition settledRecords :: "'e + json \<Rightarrow> json list" where
  "settledRecords response =
     (case response of
        Inl reason \<Rightarrow> []
      | Inr data \<Rightarrow> if truthy data then inlineArray data else [])"

text \<open>
  \<open>fetchPatientAssessments\<close>: both kinds are fetched, the overweight assessments are
  collected first, then the general ones, and the most recent entry of the merged list
  is returned (\<open>None\<close> for \<open>null\<close>).
\<close>

definition fetchPatientAssessments_PL2 ::
  "(json \<Rightarrow> int option) \<Rightarrow> 'e + json \<Rightarrow> 'e + json \<Rightarrow> assessment_entry option" where
  "fetchPatientAssessments_PL2 dateTime overweightResponse generalResponse =
     (let overweightAssessments = settledRecords overweightResponse;
          generalAssessments = settledRecords generalResponse
      in if list_ex hasNoProperties (overweightAssessments @ generalAssessments) then None
         else
           let assessments = map (tagged ''overweight'') overweightAssessments
                             @ map (tagged ''general'') generalAssessments
           in case jsSort (compareAssessments_PL2 dateTime) assessments of
                [] \<Rightarrow> None
              | latest # rest \<Rightarrow> Some latest)"

text \<open>
  \<open>parseBmiValue\<close>, on a number or a string: \<open>undefined\<close> for NaN and the infinities,
  else the value rounded to one decimal.
\<close>

definition parseBmiValue :: "(string \<Rightarrow> jsnum) \<Rightarrow> json \<Rightarrow> jsnum option" where
  "parseBmiValue parseFloat v =
     (case bmiOf parseFloat v of
        None \<Rightarrow> None
      | Some num \<Rightarrow>
          (case num of Num a \<Rightarrow> Some (parseFloat_toFixed1 num) | _ \<Rightarrow> None))"

text \<open>
  \<open>processPatientData\<close> (\<open>None\<close>: a TypeError on an element without properties, which
  rejects the promise). \<open>fallbackId\<close> is the identifier made from the clock when the
  element has none.
\<close>

definition processPatientData ::
  "(string \<Rightarrow> jsnum) \<Rightarrow> (json \<Rightarrow> int option) \<Rightarrow> string \<Rightarrow> 'e backend \<Rightarrow> json
     \<Rightarrow> patient_row option" where
  "processPatientData parseFloat dateTime fallbackId be patientData =
     (if hasNoProperties patientData then None
      else
        let patientId = orElse (getProp patientData ''patient_number'')
                          (orElse (getProp patientData ''patient_id'')
                             (orElse (getProp patientData ''id'') (JStr fallbackId)));
            dateOfBirth = orElse (getProp patientData ''date_of_birth'') (JStr []);
            latestVitals = fetchPatientVitals_PL2 dateTime
                             (be_getVitals be (getProp patientData ''id''));
            latestAssessment = fetchPatientAssessments_PL2 dateTime
                             (be_getOverweightAssessments be (getProp patientData ''id''))
                             (be_getGeneralAssessments be (getProp patientData ''id''));
            (lastBmi, lastVitalsDate) =
              (case latestVitals of
                 None \<Rightarrow> (None, JUndefined)
               | Some v \<Rightarrow>
                   if truthy v
                   then (parseBmiValue parseFloat v,
                         orElse (getProp v ''visit_date'') (getProp v ''created_at''))
                   else (None, JUndefined));
            (lastAssessmentDate, lastAssessmentType) =
              (case latestAssessment of
                 None \<Rightarrow> (JUndefined, None)
               | Some a \<Rightarrow>
                   (orElse (ae_visit_date a) (getProp (ae_record a) ''created_at''),
                    Some (if ae_type a = ''overweight'' then ''Overweight Assessment''
                          else ''General Assessment'')));
            bmiStatus = (case lastBmi of
                           None \<Rightarrow> ''No Data''
                         | Some b \<Rightarrow> if b = Num 0 \<or> b = NaN then ''No Data''
                                     else getBmiStatus_PL2 (Some b))
        in Some \<lparr> pr_id = getProp patientData ''id'',
                  pr_patient_id = patientId,
                  pr_first_name = orElse (getProp patientData ''first_name'') (JStr []),
                  pr_last_name = orElse (getProp patientData ''last_name'') (JStr []),
                  pr_middle_name = JUndefined,
                  pr_date_of_birth = dateOfBirth,
                  pr_gender = JUndefined,
                  pr_registration_date = JUndefined,
                  pr_created_at = orElse (getProp patientData ''created_at'')
                                    (orElse (getProp patientData ''date_created'') JUndefined),
                  pr_last_bmi = lastBmi,
                  pr_last_bmi_status = Some bmiStatus,
                  pr_last_vitals_date = lastVitalsDate,
                  pr_last_assessment_date = lastAssessmentDate,
                  pr_last_assessment_type = lastAssessmentType \<rparr>)"

text \<open>The rows that are kept, and the compare function that puts the newest first.\<close>

definition hasName :: "patient_row \<Rightarrow> bool" where
  "hasName patient = (truthy (pr_first_name patient) \<or> truthy (pr_last_name patient))"

definition createdValue :: "(json \<Rightarrow> int option) \<Rightarrow> patient_row \<Rightarrow> int" where
  "createdValue dateTime a =
     (if truthy (pr_created_at a) then getDateValue dateTime (pr_created_at a) else 0)"

definition compareCreated_PL2 ::
  "(json \<Rightarrow> int option) \<Rightarrow> patient_row \<Rightarrow> patient_row \<Rightarrow> jsnum" where
  "compareCreated_PL2 dateTime a b =
     Num (of_int (createdValue dateTime b - createdValue dateTime a))"

text \<open>
  The list of patients in the response: \<open>results\<close> first, then the body itself, then
  \<open>data\<close>, then the first property that holds an array.
\<close>

definition patientsArray_PL2 :: "json \<Rightarrow> json list" where
  "patientsArray_PL2 data =
     (if isArray (getProp data ''results'') then elements (getProp data ''results'')
      else if isArray data then elements data
      else if isArray (getProp data ''data'') then elements (getProp data ''data'')
      else (case data of
              JObj kvs \<Rightarrow> (case firstArray (map snd kvs) of None \<Rightarrow> [] | Some xs \<Rightarrow> xs)
            | _ \<Rightarrow> []))"

text \<open>
  \<open>fetchPatients\<close>: the list handed to \<open>setPatients\<close> (\<open>None\<close>: an error message is shown
  and the state keeps its old list).
\<close>

definition fetchPatients_PL2 ::
  "(string \<Rightarrow> jsnum) \<Rightarrow> (json \<Rightarrow> int option) \<Rightarrow> string \<Rightarrow> 'e backend
     \<Rightarrow> patient_row list option" where
  "fetchPatients_PL2 parseFloat dateTime fallbackId be =
     (case be_getPatients be of
        Inl err \<Rightarrow> None
      | Inr data \<Rightarrow>
          if \<not> truthy data then None
          else
            let patientsArray = patientsArray_PL2 data;
                patientsData = map (processPatientData parseFloat dateTime fallbackId be)
                                 patientsArray
            in if list_ex (\<lambda>row. row = None) patientsData then None
               else
                 let validPatients = filter hasName (map the patientsData);
                     sortedPatients = jsSort (compareCreated_PL2 dateTime) validPatients
                 in Some sortedPatients)"

section \<open>Evaluating the number model\<close>

lemma bits_0: "bits 0 = 0"
  by (simp add: bits.simps)

lemma bits_1: "bits 1 = 1"
  by (simp add: bits.simps)

lemma bits_Suc0: "bits (Suc 0) = 1"
  by (simp add: bits.simps)

lemma bits_Bit0: "bits (numeral (Num.Bit0 n)) = Suc (bits (numeral n))"
proof -
  have "numeral (Num.Bit0 n) div (2::nat) = numeral n" by simp
  moreover have "numeral (Num.Bit0 n) \<noteq> (0::nat)" by simp
  ultimately show ?thesis by (subst bits.simps) simp
qed

lemma bits_Bit1: "bits (numeral (Num.Bit1 n)) = Suc (bits (numeral n))"
proof -
  have "numeral (Num.Bit1 n) div (2::nat) = numeral n" by simp
  moreover have "numeral (Num.Bit1 n) \<noteq> (0::nat)" by simp
  ultimately show ?thesis by (subst bits.simps) simp
qed

lemma floor_rat_numeral_div:
  "\<lfloor>(numeral a / numeral b :: rat)\<rfloor> = numeral a div numeral b"
  by (metis floor_divide_of_int_eq of_int_numeral)

lemma ceiling_rat_numeral_div:
  "\<lceil>(numeral a / numeral b :: rat)\<rceil> = - (- numeral a div numeral b)"
  by (metis floor_divide_of_int_eq of_int_numeral ceiling_def minus_divide_left of_int_minus)

lemmas fl_eval = fl_def ilog2_def roundHalfEven_def pow2_def Let_def
  bits_0 bits_1 bits_Suc0 bits_Bit0 bits_Bit1
  floor_rat_numeral_div ceiling_rat_numeral_div

lemmas bmi_eval = calculateBMI_VF_def calculateBMI_VF2_def parseFloat_toFixed1_def fl_eval

text \<open>The decimal literal \<open>70.2\<close> is read as the nearest binary64.\<close>

lemma fl_70_2: "fl (351 / 5) = Num (4939885841272013 / 70368744177664)"
  by (simp add: fl_eval)

section \<open>Properties of the BMI engine\<close>

lemma pow2_pos: "0 < pow2 e"
  by (simp add: pow2_def)

lemma roundHalfEven_nonneg: "0 \<le> x \<Longrightarrow> 0 \<le> roundHalfEven x"
  by (auto simp add: roundHalfEven_def Let_def)

lemma fl_nonneg:
  assumes "0 < x" "fl x = Num r"
  shows "0 \<le> r"
proof -
  define u where "u = pow2 (max (ilog2 \<bar>x\<bar>) (- 1022) - 52)"
  have u: "0 < u" by (simp add: u_def pow2_pos)
  have "0 \<le> roundHalfEven (\<bar>x\<bar> / u)"
    using u by (intro roundHalfEven_nonneg) simp
  hence "0 \<le> of_int (roundHalfEven (\<bar>x\<bar> / u)) * u"
    using u by simp
  moreover have "r = of_int (roundHalfEven (\<bar>x\<bar> / u)) * u"
    using assms by (simp add: fl_def Let_def u_def split: if_splits)
  ultimately show ?thesis by simp
qed

lemma fl_pos_cases:
  assumes "0 < x"
  obtains r where "fl x = Num r" "0 \<le> r" | "fl x = PosInf"
proof (cases "fl x")
  case (Num r) with fl_nonneg[OF assms] that show ?thesis by blast
next
  case PosInf with that show ?thesis by blast
next
  case NegInf with assms show ?thesis by (simp add: fl_def Let_def split: if_splits)
next
  case NaN with assms show ?thesis by (simp add: fl_def Let_def split: if_splits)
qed

text \<open>For positive inputs the quotient \<open>weightKg / (heightM * heightM)\<close> is not negative.\<close>

lemma bmiValue_nonneg:
  assumes "0 < h" "0 < w"
    and "jdiv (Num w) (jmul (jdiv (Num h) (Num 100)) (jdiv (Num h) (Num 100))) = Num q"
  shows "0 \<le> q"
proof -
  have h100: "0 < h / 100" using assms(1) by simp
  show ?thesis
  proof (rule fl_pos_cases[OF h100])
    fix a assume a: "fl (h / 100) = Num a" "0 \<le> a"
    show ?thesis
    proof (cases "a = 0")
      case True
      with a assms show ?thesis by (simp add: fl_def)
    next
      case False
      hence aa: "0 < a * a" using a by simp
      show ?thesis
      proof (rule fl_pos_cases[OF aa])
        fix b assume b: "fl (a * a) = Num b" "0 \<le> b"
        show ?thesis
        proof (cases "b = 0")
          case True with a b assms show ?thesis by simp
        next
          case False
          hence "0 < w / b" using b assms(2) by simp
          moreover have "fl (w / b) = Num q" using a b assms False by simp
          ultimately show ?thesis by (rule fl_nonneg)
        qed
      next
        assume "fl (a * a) = PosInf"
        with a assms show ?thesis by simp
      qed
    qed
  next
    assume "fl (h / 100) = PosInf"
    with assms show ?thesis by simp
  qed
qed

lemma nearest_tenth:
  fixes q :: rat
  defines "n \<equiv> \<lfloor>10 * q + 1 / 2\<rfloor>"
  shows "of_int n / 10 - 1 / 20 \<le> q \<and> q < of_int n / 10 + 1 / 20"
proof -
  have "of_int n \<le> 10 * q + 1 / 2" "10 * q + 1 / 2 < of_int n + 1"
    unfolding n_def by linarith+
  thus ?thesis by simp
qed

lemma calculateBMI_nearest_tenth:
  assumes "0 < h" "0 < w"
    and "jdiv (Num w) (jmul (jdiv (Num h) (Num 100)) (jdiv (Num h) (Num 100))) = Num q"
    and "q < 10 ^ 21"
  shows "\<exists>n. calculateBMI_VF (Num h) (Num w) =
               (fl (of_int n / 10), getBmiStatus_PL (fl (of_int n / 10)))
           \<and> calculateBMI_VF2 (Num h) (Num w) = fl (of_int n / 10)
           \<and> of_int n / 10 - 1 / 20 \<le> q \<and> q < of_int n / 10 + 1 / 20"
proof -
  have q0: "0 \<le> q" using assms(1-3) by (rule bmiValue_nonneg)
  let ?n = "\<lfloor>10 * q + 1 / 2\<rfloor>"
  have r: "parseFloat_toFixed1 (Num q) = fl (of_int ?n / 10)"
    using q0 assms(4) by (simp add: parseFloat_toFixed1_def Let_def abs_of_nonneg)
  have "calculateBMI_VF (Num h) (Num w) =
               (fl (of_int ?n / 10), getBmiStatus_PL (fl (of_int ?n / 10)))"
    using assms(3) r by (simp add: calculateBMI_VF_def Let_def getBmiStatus_PL_def)
  moreover have "calculateBMI_VF2 (Num h) (Num w) = fl (of_int ?n / 10)"
    using assms(3) r by (simp add: calculateBMI_VF2_def Let_def)
  ultimately show ?thesis using nearest_tenth[of q] by blast
qed

lemma calculateBMI_170_70_2:
  "calculateBMI_VF (Num 170) (fl (351 / 5)) = (fl (243 / 10), ''Normal'')"
  by (simp add: bmi_eval)

lemma calculateBMI_160_70:
  "calculateBMI_VF (Num 160) (Num 70) = (fl (273 / 10), ''Overweight'')"
  by (simp add: bmi_eval)

lemma calculateBMI_180_55:
  "calculateBMI_VF (Num 180) (Num 55) = (Num 17, ''Underweight'')"
  by (simp add: bmi_eval)

lemma calculateBMI_200_100:
  "calculateBMI_VF (Num 200) (Num 100) = (Num 25, ''Overweight'')"
  by (simp add: bmi_eval)

lemma calculateBMI_160_64:
  "calculateBMI_VF (Num 160) (Num 64) = (Num 25, ''Overweight'')"
  by (simp add: bmi_eval)

lemma bmiValue_200_100:
  "jdiv (Num 100) (jmul (jdiv (Num 200) (Num 100)) (jdiv (Num 200) (Num 100))) = Num 25"
  by (simp add: fl_eval)

subsection \<open>Rounding error of the double-precision computation\<close>

text \<open>
  \<open>ilog2\<close> is the binary exponent, so \<open>fl\<close> rounds with a relative error of at most
  \<open>2 ^ - 53\<close> in the normal range. For a height of 50 to 250 cm and a weight of 2 to
  300 kg, the bounds that the later vitals form enforces, the rounded BMI differs from
  the exact quotient by at most 0.05 and the rounding errors of the four floating-point
  operations, which stay below \<open>10 ^ - 9\<close>.
\<close>

lemma pow2_powi: "pow2 e = 2 powi e"
  by (simp add: pow2_def power_int_def power_one_over [symmetric] inverse_eq_divide)

lemma bits_bounds:
  "0 < n \<Longrightarrow> 2 ^ (bits n - 1) \<le> n \<and> n < 2 ^ bits n"
proof (induction n rule: bits.induct)
  case (1 n)
  show ?case
  proof (cases "n div 2 = 0")
    case True
    with "1.prems" have "n = 1" by (simp add: div_eq_0_iff) 
    thus ?thesis by (simp add: bits_Suc0)
  next
    case False
    hence pos: "0 < n div 2" by simp
    from "1.prems" have n0: "n \<noteq> 0" by simp
    from "1.IH" [OF n0 pos]
    have ih: "2 ^ (bits (n div 2) - 1) \<le> n div 2" "n div 2 < 2 ^ bits (n div 2)"
      by simp_all
    have b: "bits n = Suc (bits (n div 2))" using n0 by (subst bits.simps) simp
    have bpos: "0 < bits (n div 2)" using pos by (subst bits.simps) simp
    have d: "2 * (n div 2) \<le> n" "n < 2 * (n div 2) + 2" by presburger+
    have "(2::nat) ^ bits (n div 2) = 2 * 2 ^ (bits (n div 2) - 1)"
      using bpos by (cases "bits (n div 2)") simp_all
    hence lo: "(2::nat) ^ bits (n div 2) \<le> n" using ih(1) d(1) by linarith
    have hi: "n < 2 * 2 ^ bits (n div 2)" using ih(2) d(2) by linarith
    show ?thesis using lo hi by (simp add: b)
  qed
qed

lemma ilog2_bounds:
  assumes "0 < x"
  shows "2 powi (ilog2 x) \<le> x \<and> x < 2 powi (ilog2 x + 1)"
proof (cases "1 \<le> x")
  case True
  define n where "n = nat \<lfloor>x\<rfloor>"
  have n1: "0 < n" using True by (simp add: n_def)
  have nx: "of_nat n \<le> x" "x < of_nat n + 1"
    using True by (simp_all add: n_def) linarith+
  from bits_bounds [OF n1] have b: "2 ^ (bits n - 1) \<le> n" "n < 2 ^ bits n" by simp_all
  have bpos: "0 < bits n" using n1 by (subst bits.simps) simp
  have e: "ilog2 x = int (bits n) - 1" using True by (simp add: ilog2_def n_def)
  have "(2::rat) powi (int (bits n) - 1) = 2 ^ (bits n - 1)"
    using bpos by (simp add: power_int_def nat_diff_distrib')
  moreover have "(2::rat) ^ (bits n - 1) \<le> of_nat n"
    using b(1) by (metis of_nat_le_iff of_nat_numeral of_nat_power)
  moreover have "(2::rat) powi (int (bits n) - 1 + 1) = 2 ^ bits n"
    by (simp add: power_int_def)
  moreover have "of_nat n + 1 \<le> (2::rat) ^ bits n"
  proof -
    have "n + 1 \<le> 2 ^ bits n" using b(2) by simp
    hence "(of_nat (n + 1) :: rat) \<le> of_nat (2 ^ bits n)" by (simp only: of_nat_le_iff)
    thus ?thesis by simp
  qed
  ultimately have "(2::rat) powi (ilog2 x) \<le> of_nat n"
    "(of_nat n :: rat) + 1 \<le> 2 powi (ilog2 x + 1)"
    unfolding e by simp_all
  thus ?thesis using nx by linarith
next
  case False
  hence x1: "x < 1" by simp
  define y where "y = 1 / x"
  have y1: "1 < y" using assms x1 by (simp add: y_def)
  define m where "m = nat (\<lceil>y\<rceil> - 1)"
  have c2: "2 \<le> \<lceil>y\<rceil>" using y1 by linarith
  have m1: "0 < m" using c2 by (simp add: m_def)
  have my: "of_nat m < y" "y \<le> of_nat m + 1"
    using c2 by (simp_all add: m_def) linarith+
  from bits_bounds [OF m1] have b: "2 ^ (bits m - 1) \<le> m" "m < 2 ^ bits m" by simp_all
  have bpos: "0 < bits m" using m1 by (subst bits.simps) simp
  have e: "ilog2 x = - int (bits m)" using False by (simp add: ilog2_def m_def y_def)
  have lo: "(2::rat) ^ (bits m - 1) < y"
  proof -
    have "(2::rat) ^ (bits m - 1) \<le> of_nat m"
      using b(1) by (metis of_nat_le_iff of_nat_numeral of_nat_power)
    thus ?thesis using my(1) by (rule le_less_trans)
  qed
  have hi: "y \<le> (2::rat) ^ bits m"
  proof -
    have "m + 1 \<le> 2 ^ bits m" using b(2) by simp
    hence "(of_nat (m + 1) :: rat) \<le> of_nat (2 ^ bits m)" by (simp only: of_nat_le_iff)
    thus ?thesis using my(2) by simp
  qed
  have p1: "(2::rat) powi (- int (bits m)) = 1 / 2 ^ bits m"
    by (simp add: power_int_def power_one_over [symmetric] inverse_eq_divide)
  have p2: "(2::rat) powi (- int (bits m) + 1) = 1 / 2 ^ (bits m - 1)"
    using bpos
    by (cases "bits m") (simp_all add: power_int_def power_one_over [symmetric] inverse_eq_divide)
  have xy: "x = 1 / y" using assms by (simp add: y_def)
  have "1 / 2 ^ bits m \<le> x"
    unfolding xy using hi y1 by (simp add: frac_le)
  moreover have "x < 1 / 2 ^ (bits m - 1)"
    unfolding xy using lo by (simp add: frac_less2)
  ultimately show ?thesis using e p1 p2 by simp
qed

lemma roundHalfEven_error: "\<bar>of_int (roundHalfEven y) - y\<bar> \<le> 1 / 2"
proof -
  have "of_int \<lfloor>y\<rfloor> \<le> y" "y < of_int \<lfloor>y\<rfloor> + 1" by linarith+
  thus ?thesis by (auto simp add: roundHalfEven_def Let_def abs_le_iff)
qed

lemma fl_relative_error:
  assumes lo: "2 powi (- 1022) \<le> x" and hi: "x \<le> 2 ^ 1000"
  shows "\<exists>r. fl x = Num r \<and> \<bar>r - x\<bar> \<le> x / 2 ^ 53"
proof -
  have xpos: "0 < x" using lo zero_less_power_int [of "2::rat" "- 1022"] by linarith
  define e where "e = ilog2 x"
  from ilog2_bounds [OF xpos] have eb: "2 powi e \<le> x" "x < 2 powi (e + 1)"
    by (simp_all add: e_def)
  have e_lo: "- 1022 \<le> e"
  proof (rule ccontr)
    assume "\<not> - 1022 \<le> e"
    hence "e + 1 \<le> - 1022" by simp
    hence "(2::rat) powi (e + 1) \<le> 2 powi (- 1022)"
      by (intro power_int_increasing) simp_all
    with eb(2) lo show False by simp
  qed
  define u where "u = (2::rat) powi (e - 52)"
  have upos: "0 < u" by (simp add: u_def)
  define r where "r = of_int (roundHalfEven (x / u)) * u"
  have "\<bar>r - x\<bar> = \<bar>of_int (roundHalfEven (x / u)) - x / u\<bar> * u"
  proof -
    have "r - x = (of_int (roundHalfEven (x / u)) - x / u) * u"
      using upos by (simp add: r_def field_simps)
    thus ?thesis using upos by (simp add: abs_mult)
  qed
  also have "\<dots> \<le> 1 / 2 * u"
    using roundHalfEven_error [of "x / u"] upos by (intro mult_right_mono) simp_all
  also have "1 / 2 * u = 2 powi e / 2 ^ 53"
  proof -
    have "(2::rat) powi (e - 52) = 2 powi e / 2 powi 52"
      by (simp add: power_int_diff)
    thus ?thesis by (simp add: u_def)
  qed
  also have "\<dots> \<le> x / 2 ^ 53"
    using eb(1) by (simp add: divide_right_mono)
  finally have err: "\<bar>r - x\<bar> \<le> x / 2 ^ 53" .
  have "r \<le> x + x / 2 ^ 53" using err by linarith
  also have "\<dots> \<le> 2 * x" using xpos by simp
  also have "\<dots> \<le> 2 * 2 ^ 1000" using hi by simp
  also have "\<dots> < (2::rat) ^ 1024" by simp
  finally have no_overflow: "\<not> pow2 1024 \<le> r" by (simp add: pow2_def)
  have "fl x = Num r"
    using xpos e_lo no_overflow
    by (simp add: fl_def Let_def e_def [symmetric] pow2_powi u_def [symmetric] r_def
        max_absorb1 abs_of_pos)
  with err show ?thesis by blast
qed


lemma tiny_normal: "1 / 1024 \<le> x \<Longrightarrow> (2::rat) powi (- 1022) \<le> x"
proof -
  assume x: "1 / 1024 \<le> x"
  have "(2::rat) powi (- 1022) \<le> 2 powi (- 10)"
    by (intro power_int_increasing) simp_all
  also have "(2::rat) powi (- 10) = 1 / 1024"
    by (simp add: power_int_def power_divide)
  finally show ?thesis using x by simp
qed

lemma eps53: "(1::rat) / 2 ^ 53 \<le> 1 / 10 ^ 15"
  by simp

lemma fl_error_small:
  assumes "1 / 1024 \<le> x" "x \<le> c" "c \<le> 2 ^ 1000"
  shows "\<exists>r. fl x = Num r \<and> \<bar>r - x\<bar> \<le> c / 10 ^ 15"
proof -
  have xpos: "0 < x" using assms(1) by simp
  from fl_relative_error [OF tiny_normal [OF assms(1)]] assms(2,3)
  obtain r where r: "fl x = Num r" "\<bar>r - x\<bar> \<le> x / 2 ^ 53" by auto
  have "x / 2 ^ 53 = x * (1 / 2 ^ 53)" by simp
  also have "\<dots> \<le> c * (1 / 10 ^ 15)"
    using xpos assms(2) eps53 by (intro mult_mono) simp_all
  finally have "x / 2 ^ 53 \<le> c / 10 ^ 15" by simp
  with r show ?thesis by (intro exI [of _ r]) simp
qed

lemma bmi_value_error:
  assumes "50 \<le> h" "h \<le> 250" "2 \<le> w" "w \<le> 300"
  shows "\<exists>q. jdiv (Num w) (jmul (jdiv (Num h) (Num 100)) (jdiv (Num h) (Num 100))) = Num q
           \<and> \<bar>q - w / (h / 100) ^ 2\<bar> \<le> 3 / 10 ^ 10"
proof -
  define a where "a = h / 100"
  have a: "1 / 2 \<le> a" "a \<le> 5 / 2" using assms(1,2) by (simp_all add: a_def)
  from fl_error_small [of a "5 / 2"] a
  obtain A where A: "fl a = Num A" "\<bar>A - a\<bar> \<le> 5 / 2 / 10 ^ 15" by auto
  have "(5::rat) / 2 / 10 ^ 15 \<le> 1 / 100" by simp
  with A(2) have "\<bar>A - a\<bar> \<le> 1 / 100" by linarith
  hence Ab: "2 / 5 \<le> A" "A \<le> 3" using a by linarith+
  have AA: "4 / 25 \<le> A * A" "A * A \<le> 9"
  proof -
    have "2 / 5 * (2 / 5) \<le> A * A" using Ab(1) by (intro mult_mono) simp_all
    thus "4 / 25 \<le> A * A" by simp
    have "A * A \<le> 3 * 3" using Ab by (intro mult_mono) simp_all
    thus "A * A \<le> 9" by simp
  qed
  from fl_error_small [of "A * A" 9] AA
  obtain B where B: "fl (A * A) = Num B" "\<bar>B - A * A\<bar> \<le> 9 / 10 ^ 15" by auto
  have dAA: "\<bar>A * A - a * a\<bar> \<le> 2 / 10 ^ 14"
  proof -
    have "A * A - a * a = (A - a) * (A + a)" by (simp add: algebra_simps)
    hence "\<bar>A * A - a * a\<bar> = \<bar>A - a\<bar> * \<bar>A + a\<bar>" by (simp add: abs_mult)
    also have "\<dots> \<le> 5 / 2 / 10 ^ 15 * 6"
      using A(2) Ab a by (intro mult_mono) simp_all
    finally show ?thesis by simp
  qed
  have dB: "\<bar>B - a * a\<bar> \<le> 3 / 10 ^ 14"
  proof -
    have "\<bar>B - a * a\<bar> \<le> \<bar>B - A * A\<bar> + \<bar>A * A - a * a\<bar>" by simp
    also have "\<dots> \<le> 9 / 10 ^ 15 + 2 / 10 ^ 14" using B(2) dAA by (intro add_mono)
    finally show ?thesis by simp
  qed
  have aa: "1 / 4 \<le> a * a" "a * a \<le> 25 / 4"
  proof -
    have "1 / 2 * (1 / 2) \<le> a * a" using a(1) by (intro mult_mono) simp_all
    thus "1 / 4 \<le> a * a" by simp
    have "a * a \<le> 5 / 2 * (5 / 2)" using a by (intro mult_mono) simp_all
    thus "a * a \<le> 25 / 4" by simp
  qed
  have "(3::rat) / 10 ^ 14 \<le> 1 / 100" by simp
  with dB have "\<bar>B - a * a\<bar> \<le> 1 / 100" by linarith
  hence Bb: "1 / 5 \<le> B" "B \<le> 7" using aa by linarith+
  have wB: "1 / 1024 \<le> w / B" "w / B \<le> 1500"
  proof -
    have "2 / 7 \<le> w / B" using assms(3) Bb by (intro frac_le) simp_all
    thus "1 / 1024 \<le> w / B" by simp
    have "w / B \<le> 300 / (1 / 5)" using assms(3,4) Bb by (intro frac_le) simp_all
    thus "w / B \<le> 1500" by simp
  qed
  from fl_error_small [of "w / B" 1500] wB
  obtain q where q: "fl (w / B) = Num q" "\<bar>q - w / B\<bar> \<le> 1500 / 10 ^ 15" by auto
  have dq: "\<bar>w / B - w / (a * a)\<bar> \<le> 2 / 10 ^ 10"
  proof -
    define s where "s = a * a"
    have Bpos: "0 < B" and spos: "0 < s" using Bb aa by (simp_all add: s_def)
    have sb: "1 / 4 \<le> s" and ds: "\<bar>s - B\<bar> \<le> 3 / 10 ^ 14"
      using aa dB by (simp_all add: s_def abs_minus_commute)
    have "w / B - w / s = w * (s - B) / (B * s)"
      using Bpos spos by (simp add: field_simps)
    hence "\<bar>w / B - w / s\<bar> = w * \<bar>s - B\<bar> / (B * s)"
      using Bpos spos assms(3) by (simp add: abs_mult)
    also have "\<dots> \<le> 300 * (3 / 10 ^ 14) / (1 / 5 * (1 / 4))"
      using assms(3,4) Bb sb ds by (intro frac_le mult_mono) simp_all
    finally show ?thesis by (simp add: s_def)
  qed
  have "jdiv (Num w) (jmul (jdiv (Num h) (Num 100)) (jdiv (Num h) (Num 100))) = Num q"
    using A(1) B(1) q(1) Bb(1) by (simp add: a_def [symmetric])
  moreover have "\<bar>q - w / (h / 100) ^ 2\<bar> \<le> 3 / 10 ^ 10"
  proof -
    have "\<bar>q - w / (a * a)\<bar> \<le> \<bar>q - w / B\<bar> + \<bar>w / B - w / (a * a)\<bar>" by simp
    also have "\<dots> \<le> 1500 / 10 ^ 15 + 2 / 10 ^ 10" using q(2) dq by (intro add_mono)
    finally show ?thesis by (simp add: a_def power2_eq_square)
  qed
  ultimately show ?thesis by blast
qed

lemma bmi_within_tolerance:
  assumes "50 \<le> h" "h \<le> 250" "2 \<le> w" "w \<le> 300"
  shows "\<exists>v. fst (calculateBMI_VF (Num h) (Num w)) = Num v
           \<and> calculateBMI_VF2 (Num h) (Num w) = Num v
           \<and> \<bar>v - w / (h / 100) ^ 2\<bar> \<le> 1 / 20 + 1 / 10 ^ 9"
proof -
  define Q where "Q = w / (h / 100) ^ 2"
  from bmi_value_error [OF assms] obtain q where
    q: "jdiv (Num w) (jmul (jdiv (Num h) (Num 100)) (jdiv (Num h) (Num 100))) = Num q"
    and dq: "\<bar>q - Q\<bar> \<le> 3 / 10 ^ 10" by (auto simp add: Q_def)
  have Qb: "8 / 25 \<le> Q" "Q \<le> 1200"
  proof -
    have hpos: "0 < h" using assms(1) by simp
    have hh: "1 / 4 \<le> (h / 100) ^ 2" "(h / 100) ^ 2 \<le> 25 / 4"
    proof -
      have "(1 / 2) ^ 2 \<le> (h / 100) ^ 2" using assms(1) by (intro power_mono) simp_all
      thus "1 / 4 \<le> (h / 100) ^ 2" by (simp add: power2_eq_square)
      have "(h / 100) ^ 2 \<le> (5 / 2) ^ 2" using assms(1,2) by (intro power_mono) simp_all
      thus "(h / 100) ^ 2 \<le> 25 / 4" by (simp add: power2_eq_square)
    qed
    have "2 / (25 / 4) \<le> Q" unfolding Q_def using assms(3) hh hpos by (intro frac_le) simp_all
    thus "8 / 25 \<le> Q" by simp
    have "Q \<le> 300 / (1 / 4)" unfolding Q_def using assms(3,4) hh hpos by (intro frac_le) simp_all
    thus "Q \<le> 1200" by simp
  qed
  have "(3::rat) / 10 ^ 10 \<le> 1 / 100" by simp
  with dq have "\<bar>q - Q\<bar> \<le> 1 / 100" by linarith
  hence qb: "3 / 10 \<le> q" "q \<le> 1201" using Qb by linarith+
  define n where "n = \<lfloor>10 * q + 1 / 2\<rfloor>"
  have nt: "of_int n / 10 - 1 / 20 \<le> q" "q < of_int n / 10 + 1 / 20"
    using nearest_tenth [of q] by (simp_all add: n_def)
  have nb: "(1::rat) / 1024 \<le> of_int n / 10" "(of_int n :: rat) / 10 \<le> 1202"
    using nt qb by linarith+
  from fl_error_small [of "of_int n / 10" 1202] nb
  obtain v where v: "fl (of_int n / 10) = Num v" "\<bar>v - of_int n / 10\<bar> \<le> 1202 / 10 ^ 15"
    by auto
  have r: "parseFloat_toFixed1 (Num q) = Num v"
    using qb v(1) by (simp add: parseFloat_toFixed1_def Let_def n_def abs_of_nonneg)
  have "fst (calculateBMI_VF (Num h) (Num w)) = Num v"
    using q r by (simp add: calculateBMI_VF_def Let_def)
  moreover have "calculateBMI_VF2 (Num h) (Num w) = Num v"
    using q r by (simp add: calculateBMI_VF2_def Let_def)
  moreover have "\<bar>v - Q\<bar> \<le> 1 / 20 + 1 / 10 ^ 9"
  proof -
    have "\<bar>of_int n / 10 - q\<bar> \<le> 1 / 20" using nt by linarith
    hence "\<bar>v - Q\<bar> \<le> 1202 / 10 ^ 15 + 1 / 20 + 3 / 10 ^ 10"
      using v(2) dq by linarith
    thus ?thesis by simp
  qed
  ultimately show ?thesis unfolding Q_def by blast
qed

text \<open>
  Claim C4. For positive finite height and weight whose double-precision quotient
  \<open>weightKg / (heightM * heightM)\<close> is a finite \<open>q\<close> below \<open>10 ^ 21\<close>, both
  \<open>calculateBMI\<close> functions return the binary64 nearest to \<open>n / 10\<close>, where \<open>n / 10\<close> is
  the one-decimal number nearest to \<open>q\<close> (the upper one on a tie), and the status is the
  threshold classification of that value. For a height of 50 to 250 cm and a weight of
  2 to 300 kg the value is within \<open>0.05 + 10 ^ - 9\<close> of the exact
  \<open>weightKg / (heightCm / 100) ^ 2\<close>. In particular, for 170 cm and 70.2 kg the value is
  24.3 and the status Normal, for 160 cm and 70 kg it is 27.3 and Overweight, for 180 cm
  and 55 kg it is 17.0 and Underweight.
\<close>

theorem computeBmi_rounds_to_one_decimal:
  "(\<forall>h w q. 0 < h \<and> 0 < w
      \<and> jdiv (Num w) (jmul (jdiv (Num h) (Num 100)) (jdiv (Num h) (Num 100))) = Num q
      \<and> q < 10 ^ 21 \<longrightarrow>
      (\<exists>n. calculateBMI_VF (Num h) (Num w) =
               (fl (of_int n / 10), getBmiStatus_PL (fl (of_int n / 10)))
           \<and> calculateBMI_VF2 (Num h) (Num w) = fl (of_int n / 10)
           \<and> of_int n / 10 - 1 / 20 \<le> q \<and> q < of_int n / 10 + 1 / 20))
   \<and> (\<forall>h w. 50 \<le> h \<and> h \<le> 250 \<and> 2 \<le> w \<and> w \<le> 300 \<longrightarrow>
      (\<exists>v. fst (calculateBMI_VF (Num h) (Num w)) = Num v
           \<and> calculateBMI_VF2 (Num h) (Num w) = Num v
           \<and> \<bar>v - w / (h / 100) ^ 2\<bar> \<le> 1 / 20 + 1 / 10 ^ 9))
   \<and> calculateBMI_VF (Num 170) (fl (351 / 5)) = (fl (243 / 10), ''Normal'')
   \<and> calculateBMI_VF (Num 160) (Num 70) = (fl (273 / 10), ''Overweight'')
   \<and> calculateBMI_VF (Num 180) (Num 55) = (Num 17, ''Underweight'')"
proof (intro conjI allI impI)
  fix h w q :: rat
  assume "0 < h \<and> 0 < w
      \<and> jdiv (Num w) (jmul (jdiv (Num h) (Num 100)) (jdiv (Num h) (Num 100))) = Num q
      \<and> q < 10 ^ 21"
  thus "\<exists>n. calculateBMI_VF (Num h) (Num w) =
               (fl (of_int n / 10), getBmiStatus_PL (fl (of_int n / 10)))
           \<and> calculateBMI_VF2 (Num h) (Num w) = fl (of_int n / 10)
           \<and> of_int n / 10 - 1 / 20 \<le> q \<and> q < of_int n / 10 + 1 / 20"
    using calculateBMI_nearest_tenth [of h w q] by blast
next
  fix h w :: rat
  assume "50 \<le> h \<and> h \<le> 250 \<and> 2 \<le> w \<and> w \<le> 300"
  thus "\<exists>v. fst (calculateBMI_VF (Num h) (Num w)) = Num v
           \<and> calculateBMI_VF2 (Num h) (Num w) = Num v
           \<and> \<bar>v - w / (h / 100) ^ 2\<bar> \<le> 1 / 20 + 1 / 10 ^ 9"
    using bmi_within_tolerance [of h w] by blast
qed (rule calculateBMI_170_70_2 calculateBMI_160_70 calculateBMI_180_55)+

theorem computeBmi_rounds_to_one_decimal_witness:
  "(0::rat) < 200 \<and> (0::rat) < 100
   \<and> jdiv (Num 100) (jmul (jdiv (Num 200) (Num 100)) (jdiv (Num 200) (Num 100))) = Num 25
   \<and> (25::rat) < 10 ^ 21
   \<and> (\<exists>n. calculateBMI_VF (Num 200) (Num 100) =
               (fl (of_int n / 10), getBmiStatus_PL (fl (of_int n / 10)))
           \<and> calculateBMI_VF2 (Num 200) (Num 100) = fl (of_int n / 10)
           \<and> of_int n / 10 - 1 / 20 \<le> (25::rat) \<and> (25::rat) < of_int n / 10 + 1 / 20)
   \<and> (50::rat) \<le> 200 \<and> (200::rat) \<le> 250 \<and> (2::rat) \<le> 100 \<and> (100::rat) \<le> 300
   \<and> (\<exists>v. fst (calculateBMI_VF (Num 200) (Num 100)) = Num v
           \<and> calculateBMI_VF2 (Num 200) (Num 100) = Num v
           \<and> \<bar>v - 100 / (200 / 100) ^ 2\<bar> \<le> 1 / 20 + 1 / 10 ^ 9)"
proof -
  have hyp: "(0::rat) < 200 \<and> (0::rat) < 100
     \<and> jdiv (Num 100) (jmul (jdiv (Num 200) (Num 100)) (jdiv (Num 200) (Num 100))) = Num 25
     \<and> (25::rat) < 10 ^ 21"
    using bmiValue_200_100 by simp
  have range: "(50::rat) \<le> 200 \<and> (200::rat) \<le> 250 \<and> (2::rat) \<le> 100 \<and> (100::rat) \<le> 300"
    by simp
  note claim = computeBmi_rounds_to_one_decimal
  from claim [THEN conjunct1, THEN spec, THEN spec, THEN spec, THEN mp, OF hyp]
  have first: "\<exists>n. calculateBMI_VF (Num 200) (Num 100) =
               (fl (of_int n / 10), getBmiStatus_PL (fl (of_int n / 10)))
           \<and> calculateBMI_VF2 (Num 200) (Num 100) = fl (of_int n / 10)
           \<and> of_int n / 10 - 1 / 20 \<le> (25::rat) \<and> (25::rat) < of_int n / 10 + 1 / 20" .
  from claim [THEN conjunct2, THEN conjunct1, THEN spec, THEN spec, THEN mp, OF range]
  have second: "\<exists>v. fst (calculateBMI_VF (Num 200) (Num 100)) = Num v
           \<and> calculateBMI_VF2 (Num 200) (Num 100) = Num v
           \<and> \<bar>v - 100 / (200 / 100) ^ 2\<bar> \<le> 1 / 20 + 1 / 10 ^ 9" .
  from hyp range first second show ?thesis by (intro conjI) (elim conjE, assumption)+
qed

section \<open>Classification functions\<close>

text \<open>
  Claim C5, as amended. The unguarded classification functions (first patient listing,
  patient details, general assessment form, and the status computed by \<open>calculateBMI\<close>)
  are equal as functions, total, and return exactly one of the three labels, by the
  thresholds 18.5 and 25. The guarded ones agree with them wherever their guard lets
  the number through: the second listing answers \<open>No Data\<close> for \<open>undefined\<close>, zero and
  NaN, the later vitals form answers \<open>Unknown\<close> for NaN.
\<close>

theorem classification_functions_agree:
  "getBmiStatusText_GA2 x = getBmiStatus_PL x
   \<and> getBmiStatus_PD x = getBmiStatus_PL x
   \<and> snd (calculateBMI_VF h w) = getBmiStatus_PL (fst (calculateBMI_VF h w))
   \<and> getBmiStatus_PL x \<in> {''Underweight'', ''Normal'', ''Overweight''}
   \<and> getBmiStatus_PL (Num a) =
        (if a < 37 / 2 then ''Underweight'' else if a < 25 then ''Normal'' else ''Overweight'')
   \<and> getBmiStatus_PL2 b =
        (if b = None \<or> b = Some (Num 0) \<or> b = Some NaN then ''No Data''
         else getBmiStatus_PL (the b))
   \<and> getBmiStatus_VF2 parseFloat (Inl x) =
        (if x = NaN then ''Unknown'' else getBmiStatus_PL x)"
  by (cases b)
    (simp_all add: getBmiStatusText_GA2_def getBmiStatus_PL_def getBmiStatus_PD_def
      calculateBMI_VF_def getBmiStatus_PL2_def getBmiStatus_VF2_def Let_def)

text \<open>
  The claim as stated fails at BMI 0: the second listing labels it \<open>No Data\<close>, which is
  none of the three labels, where the first listing says \<open>Underweight\<close>.
\<close>

theorem classification_functions_differ_at_zero:
  "getBmiStatus_PL2 (Some (Num 0)) \<noteq> getBmiStatus_PL (Num 0)
   \<and> getBmiStatus_PL2 (Some (Num 0)) \<notin> {''Underweight'', ''Normal'', ''Overweight''}"
  by (simp add: getBmiStatus_PL2_def getBmiStatus_PL_def)

section \<open>Workflow gating\<close>

text \<open>
  Away from the boundary value 25 the route chosen after a vitals recording is the
  overweight form exactly for the category Overweight.
\<close>

lemma nextRoute_matches_category_off_boundary:
  "a \<noteq> 25 \<Longrightarrow>
   (nextRoute_VF (Num a) = ''/overweight-assessment'') =
   (getBmiStatus_PL (Num a) = ''Overweight'')"
  by (auto simp add: nextRoute_VF_def getBmiStatus_PL_def jle_def)

text \<open>
  Claim C1, evaluated at its failing input. A height of 160 cm and a weight of 64 kg give
  the BMI 25.0 with the category Overweight, yet both vitals forms route to the general
  assessment form; the first general assessment form accepts this patient and the
  overweight assessment form denies access.
\<close>

theorem overweight_25_routed_to_general_form:
  "calculateBMI_VF (Num 160) (Num 64) = (Num 25, ''Overweight'')
   \<and> nextRoute_VF (Num 25) = ''/general-assessment''
   \<and> nextRoute_VF2 (Num 25) = ''/general-assessment''
   \<and> GeneralAssessmentForm_GA (Some p) (Some (Num 25)) = AssessmentForm
   \<and> OverweightAssessmentForm_OA (Some p) (Some (Num 25)) = AccessDenied"
  using calculateBMI_160_64
  by (simp add: nextRoute_VF_def nextRoute_VF2_def GeneralAssessmentForm_GA_def
      OverweightAssessmentForm_OA_def jle_def jgt_def)

text \<open>
  Claim C9. A height of 200 cm and a weight of 100 kg give a BMI of exactly 25.0. The
  vitals form routes it to the general assessment form; the second general assessment
  form classifies 25.0 as Overweight and shows the access-denied notice; the overweight
  assessment form denies access for every BMI up to 25. Neither form accepts the patient.
\<close>

theorem boundary_25_dead_end:
  "fst (calculateBMI_VF (Num 200) (Num 100)) = Num 25
   \<and> nextRoute_VF (Num 25) = ''/general-assessment''
   \<and> getBmiStatusText_GA2 (Num 25) = ''Overweight''
   \<and> GeneralAssessmentForm_GA2 (Some p) (Some (Num 25)) = AccessDenied
   \<and> OverweightAssessmentForm_OA (Some p) (Some (Num 25)) = AccessDenied"
  using calculateBMI_200_100
  by (simp add: nextRoute_VF_def GeneralAssessmentForm_GA2_def getBmiStatusText_GA2_def
      OverweightAssessmentForm_OA_def jle_def)

section \<open>Response normalizer\<close>

lemma firstArray_find: "firstArray vs = map_option elements (find isArray vs)"
  by (induction vs rule: firstArray.induct) simp_all

lemma find_append_first:
  "find P (xs @ ys) = (case find P xs of Some x \<Rightarrow> Some x | None \<Rightarrow> find P ys)"
  by (induction xs) simp_all

lemma firstNestedArray_find:
  "firstNestedArray vs = map_option elements (find isArray (concat (map entriesAtDepth1 vs)))"
proof (induction vs)
  case Nil
  show ?case by simp
next
  case (Cons v vs)
  show ?case
  proof (cases "objectValues v")
    case None
    with Cons show ?thesis by (simp add: entriesAtDepth1_def)
  next
    case (Some nested)
    with Cons show ?thesis
      by (simp add: entriesAtDepth1_def find_append_first firstArray_find split: option.splits)
  qed
qed

lemma extractArrayFromResponse_VF2_refines_spec:
  "extractArrayFromResponse_VF2 payload = extractRecords_spec payload"
proof (cases "objectValues payload")
  case None
  thus ?thesis
    by (simp add: extractArrayFromResponse_VF2_def extractRecords_spec_def
        entriesAtDepth1_def entriesAtDepth2_def)
next
  case (Some vs)
  thus ?thesis
    by (simp add: extractArrayFromResponse_VF2_def extractRecords_spec_def
        entriesAtDepth1_def entriesAtDepth2_def firstArray_find firstNestedArray_find
        split: option.splits)
qed

text \<open>
  Claim C8, as amended. \<open>extractArrayFromResponse\<close> of the vitals form is the algorithm
  of the specification, step for step, on every payload. \<open>extractArrayFromResponse\<close> of
  the patient listing (and of the patient details page) takes the first three steps
  only and returns the empty list otherwise. Both are total: every payload has a result.
\<close>

theorem extractArrayFromResponse_algorithm:
  "extractArrayFromResponse_VF2 payload = extractRecords_spec payload
   \<and> extractArrayFromResponse_PL payload =
       (if isArray payload \<or> isArray (getProp payload ''results'')
           \<or> isArray (getProp payload ''data'')
        then extractRecords_spec payload else [])"
  using extractArrayFromResponse_VF2_refines_spec
  by (simp add: extractArrayFromResponse_PL_def extractRecords_spec_def)

text \<open>
  The claim as stated fails for the patient listing: a list under another key is found
  by the scan of the specification, and not by the listing's function.
\<close>

theorem extractArrayFromResponse_PL_no_scan:
  "extractArrayFromResponse_PL (JObj [(''items'', JArr [JStr ''r1''])]) = []
   \<and> extractRecords_spec (JObj [(''items'', JArr [JStr ''r1''])]) = [JStr ''r1'']"
  by (simp add: extractArrayFromResponse_PL_def extractRecords_spec_def getProp_def
      entriesAtDepth1_def)

section \<open>Visit date guard\<close>

lemma dateExists_VF_strings:
  "dateExists_VF (map JStr ds) n = Some (n \<in> trim ` set ds)"
  by (induction ds) auto

text \<open>
  Claim C6. In the vitals form, with a patient, all fields filled in and a positive
  height and weight, a submission whose visit date is among the existing dates ends in
  the validation message and sends no write; the form compares the dates after trimming
  white space, and a submission whose trimmed date is not among the trimmed existing
  dates sends the write. In the general assessment form the test is plain membership.
\<close>

theorem duplicate_date_guard:
  "(vs_patient st = Some p \<and> p_id p \<noteq> []
      \<and> vf_visit_date (vs_formData st) \<noteq> [] \<and> vf_height_cm (vs_formData st) \<noteq> []
      \<and> vf_weight_kg (vs_formData st) \<noteq> []
      \<and> parseFloat (vf_height_cm (vs_formData st)) = Num h \<and> 0 < h
      \<and> parseFloat (vf_weight_kg (vs_formData st)) = Num w \<and> 0 < w
      \<and> vs_existingDates st = map JStr ds
    \<longrightarrow>
      (vf_visit_date (vs_formData st) \<in> set ds \<longrightarrow>
         handleSubmit_VF parseFloat createVitals errorMessage st =
           ([], ShowError (''A vitals entry already exists for ''
                             @ vf_visit_date (vs_formData st)
                             @ ''. Please select a different date.'')))
      \<and> (trim (vf_visit_date (vs_formData st)) \<notin> trim ` set ds \<longrightarrow>
         fst (handleSubmit_VF parseFloat createVitals errorMessage st) =
           [\<lparr> vd_patient_id = p_id p,
              vd_visit_date = vf_visit_date (vs_formData st),
              vd_height_cm = Num h, vd_weight_kg = Num w,
              vd_bmi = fst (calculateBMI_VF (Num h) (Num w)) \<rparr>]))
   \<and> (gs_patient gst = Some gp \<and> p_id gp \<noteq> []
      \<and> ga_visit_date (gs_formData gst) \<noteq> [] \<and> ga_general_health (gs_formData gst) \<noteq> []
      \<and> ga_using_drugs (gs_formData gst) \<noteq> []
      \<and> gs_existingDates gst = map JStr gds
    \<longrightarrow>
      (ga_visit_date (gs_formData gst) \<in> set gds \<longrightarrow>
         handleSubmit_GA2 createGeneralAssessment gErrorMessage gst =
           ([], ShowError (''A general assessment already exists for ''
                             @ ga_visit_date (gs_formData gst)
                             @ ''. Please select a different date.'')))
      \<and> (ga_visit_date (gs_formData gst) \<notin> set gds \<longrightarrow>
         fst (handleSubmit_GA2 createGeneralAssessment gErrorMessage gst) =
           [\<lparr> gd_patient_id = p_id gp,
              gd_visit_date = ga_visit_date (gs_formData gst),
              gd_general_health = trim (ga_general_health (gs_formData gst)),
              gd_using_drugs = trim (ga_using_drugs (gs_formData gst)),
              gd_comments = trim (ga_comments (gs_formData gst)) \<rparr>]))"
proof (intro conjI impI; elim conjE)
  assume a: "vs_patient st = Some p" "p_id p \<noteq> []" "vf_visit_date (vs_formData st) \<noteq> []"
    "vf_height_cm (vs_formData st) \<noteq> []" "vf_weight_kg (vs_formData st) \<noteq> []"
    "parseFloat (vf_height_cm (vs_formData st)) = Num h" "0 < h"
    "parseFloat (vf_weight_kg (vs_formData st)) = Num w" "0 < w"
    "vs_existingDates st = map JStr ds"
  {
    assume "vf_visit_date (vs_formData st) \<in> set ds"
    hence "trim (vf_visit_date (vs_formData st)) \<in> trim ` set ds" by simp
    with a show "handleSubmit_VF parseFloat createVitals errorMessage st =
           ([], ShowError (''A vitals entry already exists for ''
                             @ vf_visit_date (vs_formData st)
                             @ ''. Please select a different date.''))"
      by (simp add: handleSubmit_VF_def Let_def jle_def dateExists_VF_strings)
  }
  {
    assume "trim (vf_visit_date (vs_formData st)) \<notin> trim ` set ds"
    with a show "fst (handleSubmit_VF parseFloat createVitals errorMessage st) =
           [\<lparr> vd_patient_id = p_id p,
              vd_visit_date = vf_visit_date (vs_formData st),
              vd_height_cm = Num h, vd_weight_kg = Num w,
              vd_bmi = fst (calculateBMI_VF (Num h) (Num w)) \<rparr>]"
      by (simp add: handleSubmit_VF_def Let_def jle_def dateExists_VF_strings
          split: prod.splits sum.splits)
  }
next
  assume a: "gs_patient gst = Some gp" "p_id gp \<noteq> []" "ga_visit_date (gs_formData gst) \<noteq> []"
    "ga_general_health (gs_formData gst) \<noteq> []" "ga_using_drugs (gs_formData gst) \<noteq> []"
    "gs_existingDates gst = map JStr gds"
  {
    assume "ga_visit_date (gs_formData gst) \<in> set gds"
    with a show "handleSubmit_GA2 createGeneralAssessment gErrorMessage gst =
           ([], ShowError (''A general assessment already exists for ''
                             @ ga_visit_date (gs_formData gst)
                             @ ''. Please select a different date.''))"
      by (auto simp add: handleSubmit_GA2_def Let_def)
  }
  {
    assume "ga_visit_date (gs_formData gst) \<notin> set gds"
    with a show "fst (handleSubmit_GA2 createGeneralAssessment gErrorMessage gst) =
           [\<lparr> gd_patient_id = p_id gp,
              gd_visit_date = ga_visit_date (gs_formData gst),
              gd_general_health = trim (ga_general_health (gs_formData gst)),
              gd_using_drugs = trim (ga_using_drugs (gs_formData gst)),
              gd_comments = trim (ga_comments (gs_formData gst)) \<rparr>]"
      by (auto simp add: handleSubmit_GA2_def Let_def split: sum.splits)
  }
qed

text \<open>
  With the existing vitals dates \<open>{2024-01-10}\<close>, a vitals submission for 2024-01-10 is
  rejected and one for 2024-01-11 is sent.
\<close>

theorem duplicate_date_guard_witness:
  "handleSubmit_VF (\<lambda>s. if s = ''170'' then Num 170 else if s = ''70'' then Num 70 else NaN)
      (\<lambda>d. Inr JNull :: unit + json) (\<lambda>e. ''failed'')
      \<lparr> vs_patient = Some \<lparr> p_id = ''7'', p_patient_id = ''PAT001'',
                             p_first_name = ''Ann'', p_last_name = ''Lee'' \<rparr>,
        vs_formData = \<lparr> vf_visit_date = ''2024-01-10'', vf_height_cm = ''170'',
                        vf_weight_kg = ''70'' \<rparr>,
        vs_existingDates = map JStr [''2024-01-10''] \<rparr>
     = ([], ShowError ''A vitals entry already exists for 2024-01-10. Please select a different date.'')
   \<and> fst (handleSubmit_VF
        (\<lambda>s. if s = ''170'' then Num 170 else if s = ''70'' then Num 70 else NaN)
        (\<lambda>d. Inr JNull :: unit + json) (\<lambda>e. ''failed'')
        \<lparr> vs_patient = Some \<lparr> p_id = ''7'', p_patient_id = ''PAT001'',
                               p_first_name = ''Ann'', p_last_name = ''Lee'' \<rparr>,
          vs_formData = \<lparr> vf_visit_date = ''2024-01-11'', vf_height_cm = ''170'',
                          vf_weight_kg = ''70'' \<rparr>,
          vs_existingDates = map JStr [''2024-01-10''] \<rparr>)
     = [\<lparr> vd_patient_id = ''7'', vd_visit_date = ''2024-01-11'', vd_height_cm = Num 170,
          vd_weight_kg = Num 70, vd_bmi = fst (calculateBMI_VF (Num 170) (Num 70)) \<rparr>]
   \<and> handleSubmit_GA2 (\<lambda>d. Inr JNull :: unit + json) (\<lambda>e. ''failed'')
        \<lparr> gs_patient = Some \<lparr> p_id = ''7'', p_patient_id = ''PAT001'',
                               p_first_name = ''Ann'', p_last_name = ''Lee'' \<rparr>,
          gs_formData = \<lparr> ga_visit_date = ''2024-01-10'', ga_general_health = ''Good'',
                          ga_using_drugs = ''No'', ga_comments = [] \<rparr>,
          gs_existingDates = map JStr [''2024-01-10''] \<rparr>
     = ([], ShowError ''A general assessment already exists for 2024-01-10. Please select a different date.'')"
proof -
  note rejected = duplicate_date_guard [where st = "\<lparr> vs_patient = Some \<lparr> p_id = ''7'', p_patient_id = ''PAT001'',
                             p_first_name = ''Ann'', p_last_name = ''Lee'' \<rparr>,
        vs_formData = \<lparr> vf_visit_date = ''2024-01-10'', vf_height_cm = ''170'',
                        vf_weight_kg = ''70'' \<rparr>,
        vs_existingDates = map JStr [''2024-01-10''] \<rparr>"
    and p = "\<lparr> p_id = ''7'', p_patient_id = ''PAT001'',
                             p_first_name = ''Ann'', p_last_name = ''Lee'' \<rparr>"
    and parseFloat = "\<lambda>s. if s = ''170'' then Num 170 else if s = ''70'' then Num 70 else NaN"
    and h = 170 and w = 70 and ds = "[''2024-01-10'']"
    and createVitals = "\<lambda>d. Inr JNull :: unit + json" and errorMessage = "\<lambda>e. ''failed''",
    THEN conjunct1]
  note accepted = duplicate_date_guard [where st = "\<lparr> vs_patient = Some \<lparr> p_id = ''7'', p_patient_id = ''PAT001'',
                             p_first_name = ''Ann'', p_last_name = ''Lee'' \<rparr>,
        vs_formData = \<lparr> vf_visit_date = ''2024-01-11'', vf_height_cm = ''170'',
                        vf_weight_kg = ''70'' \<rparr>,
        vs_existingDates = map JStr [''2024-01-10''] \<rparr>"
    and p = "\<lparr> p_id = ''7'', p_patient_id = ''PAT001'',
                             p_first_name = ''Ann'', p_last_name = ''Lee'' \<rparr>"
    and parseFloat = "\<lambda>s. if s = ''170'' then Num 170 else if s = ''70'' then Num 70 else NaN"
    and h = 170 and w = 70 and ds = "[''2024-01-10'']"
    and createVitals = "\<lambda>d. Inr JNull :: unit + json" and errorMessage = "\<lambda>e. ''failed''",
    THEN conjunct1]
  note general = duplicate_date_guard [where gst = "\<lparr> gs_patient = Some \<lparr> p_id = ''7'',
          p_patient_id = ''PAT001'', p_first_name = ''Ann'', p_last_name = ''Lee'' \<rparr>,
          gs_formData = \<lparr> ga_visit_date = ''2024-01-10'', ga_general_health = ''Good'',
                          ga_using_drugs = ''No'', ga_comments = [] \<rparr>,
          gs_existingDates = map JStr [''2024-01-10''] \<rparr>"
    and gp = "\<lparr> p_id = ''7'', p_patient_id = ''PAT001'',
                             p_first_name = ''Ann'', p_last_name = ''Lee'' \<rparr>"
    and gds = "[''2024-01-10'']"
    and createGeneralAssessment = "\<lambda>d. Inr JNull :: unit + json"
    and gErrorMessage = "\<lambda>e. ''failed''",
    THEN conjunct2]
  from rejected accepted general show ?thesis
    by (simp add: trim_def isWhiteSpace_def)
qed


text \<open>
  Claim C10. When the fetch of the existing records fails, both forms set the list
  of existing dates to the empty list; with that list the duplicate check passes for
  every visit date, and a submission with valid fields sends its write.
\<close>

theorem failed_fetch_disables_duplicate_guard:
  "(p_id p \<noteq> [] \<longrightarrow>
      fetchExistingVitals_VF toISODate (Some p) (Inl err) old = []
      \<and> fetchExistingAssessments_GA2 toISODate (Some p) (Inl err) old = [])
   \<and> (vs_patient st = Some p \<and> p_id p \<noteq> []
      \<and> vf_visit_date (vs_formData st) \<noteq> [] \<and> vf_height_cm (vs_formData st) \<noteq> []
      \<and> vf_weight_kg (vs_formData st) \<noteq> []
      \<and> parseFloat (vf_height_cm (vs_formData st)) = Num h \<and> 0 < h
      \<and> parseFloat (vf_weight_kg (vs_formData st)) = Num w \<and> 0 < w
      \<and> vs_existingDates st = fetchExistingVitals_VF toISODate (Some p) (Inl err) old
    \<longrightarrow>
      fst (handleSubmit_VF parseFloat createVitals errorMessage st) =
        [\<lparr> vd_patient_id = p_id p,
           vd_visit_date = vf_visit_date (vs_formData st),
           vd_height_cm = Num h, vd_weight_kg = Num w,
           vd_bmi = fst (calculateBMI_VF (Num h) (Num w)) \<rparr>])
   \<and> (gs_patient gst = Some p \<and> p_id p \<noteq> []
      \<and> ga_visit_date (gs_formData gst) \<noteq> [] \<and> ga_general_health (gs_formData gst) \<noteq> []
      \<and> ga_using_drugs (gs_formData gst) \<noteq> []
      \<and> gs_existingDates gst = fetchExistingAssessments_GA2 toISODate (Some p) (Inl err) old
    \<longrightarrow>
      fst (handleSubmit_GA2 createGeneralAssessment gErrorMessage gst) =
        [\<lparr> gd_patient_id = p_id p,
           gd_visit_date = ga_visit_date (gs_formData gst),
           gd_general_health = trim (ga_general_health (gs_formData gst)),
           gd_using_drugs = trim (ga_using_drugs (gs_formData gst)),
           gd_comments = trim (ga_comments (gs_formData gst)) \<rparr>])"
proof (intro conjI impI; (elim conjE)?)
  assume "p_id p \<noteq> []"
  thus "fetchExistingVitals_VF toISODate (Some p) (Inl err) old = []"
    and "fetchExistingAssessments_GA2 toISODate (Some p) (Inl err) old = []"
    by (simp_all add: fetchExistingVitals_VF_def fetchExistingAssessments_GA2_def)
next
  assume "vs_patient st = Some p" "p_id p \<noteq> []" "vf_visit_date (vs_formData st) \<noteq> []"
    "vf_height_cm (vs_formData st) \<noteq> []" "vf_weight_kg (vs_formData st) \<noteq> []"
    "parseFloat (vf_height_cm (vs_formData st)) = Num h" "0 < h"
    "parseFloat (vf_weight_kg (vs_formData st)) = Num w" "0 < w"
    "vs_existingDates st = fetchExistingVitals_VF toISODate (Some p) (Inl err) old"
  thus "fst (handleSubmit_VF parseFloat createVitals errorMessage st) =
        [\<lparr> vd_patient_id = p_id p,
           vd_visit_date = vf_visit_date (vs_formData st),
           vd_height_cm = Num h, vd_weight_kg = Num w,
           vd_bmi = fst (calculateBMI_VF (Num h) (Num w)) \<rparr>]"
    by (simp add: handleSubmit_VF_def fetchExistingVitals_VF_def Let_def jle_def
        split: prod.splits sum.splits)
next
  assume "gs_patient gst = Some p" "p_id p \<noteq> []" "ga_visit_date (gs_formData gst) \<noteq> []"
    "ga_general_health (gs_formData gst) \<noteq> []" "ga_using_drugs (gs_formData gst) \<noteq> []"
    "gs_existingDates gst = fetchExistingAssessments_GA2 toISODate (Some p) (Inl err) old"
  thus "fst (handleSubmit_GA2 createGeneralAssessment gErrorMessage gst) =
        [\<lparr> gd_patient_id = p_id p,
           gd_visit_date = ga_visit_date (gs_formData gst),
           gd_general_health = trim (ga_general_health (gs_formData gst)),
           gd_using_drugs = trim (ga_using_drugs (gs_formData gst)),
           gd_comments = trim (ga_comments (gs_formData gst)) \<rparr>]"
    by (simp add: handleSubmit_GA2_def fetchExistingAssessments_GA2_def Let_def
        split: sum.splits)
qed

text \<open>
  A patient whose vitals of 2024-01-10 are stored loses the guard when the fetch fails:
  the state holds no date and a second submission for 2024-01-10 is sent.
\<close>

theorem failed_fetch_disables_duplicate_guard_witness:
  "fetchExistingVitals_VF (\<lambda>v. None)
      (Some \<lparr> p_id = ''7'', p_patient_id = ''PAT001'', p_first_name = ''Ann'',
              p_last_name = ''Lee'' \<rparr>)
      (Inl ''Network Error'') [JStr ''2024-01-10''] = []
   \<and> fst (handleSubmit_VF
        (\<lambda>s. if s = ''170'' then Num 170 else if s = ''70'' then Num 70 else NaN)
        (\<lambda>d. Inr JNull :: unit + json) (\<lambda>e. ''failed'')
        \<lparr> vs_patient = Some \<lparr> p_id = ''7'', p_patient_id = ''PAT001'',
                               p_first_name = ''Ann'', p_last_name = ''Lee'' \<rparr>,
          vs_formData = \<lparr> vf_visit_date = ''2024-01-10'', vf_height_cm = ''170'',
                          vf_weight_kg = ''70'' \<rparr>,
          vs_existingDates = [] \<rparr>)
     = [\<lparr> vd_patient_id = ''7'', vd_visit_date = ''2024-01-10'', vd_height_cm = Num 170,
          vd_weight_kg = Num 70, vd_bmi = fst (calculateBMI_VF (Num 170) (Num 70)) \<rparr>]"
proof -
  note inst = failed_fetch_disables_duplicate_guard [where
    p = "\<lparr> p_id = ''7'', p_patient_id = ''PAT001'', p_first_name = ''Ann'',
           p_last_name = ''Lee'' \<rparr>"
    and toISODate = "\<lambda>v. None" and err = "''Network Error''"
    and old = "[JStr ''2024-01-10'']"
    and st = "\<lparr> vs_patient = Some \<lparr> p_id = ''7'', p_patient_id = ''PAT001'',
                               p_first_name = ''Ann'', p_last_name = ''Lee'' \<rparr>,
          vs_formData = \<lparr> vf_visit_date = ''2024-01-10'', vf_height_cm = ''170'',
                          vf_weight_kg = ''70'' \<rparr>,
          vs_existingDates = [] \<rparr>"
    and parseFloat = "\<lambda>s. if s = ''170'' then Num 170 else if s = ''70'' then Num 70 else NaN"
    and h = 170 and w = 70
    and createVitals = "\<lambda>d. Inr JNull :: unit + json" and errorMessage = "\<lambda>e. ''failed''"]
  have fetched: "fetchExistingVitals_VF (\<lambda>v. None)
      (Some \<lparr> p_id = ''7'', p_patient_id = ''PAT001'', p_first_name = ''Ann'',
              p_last_name = ''Lee'' \<rparr>)
      (Inl ''Network Error'') [JStr ''2024-01-10''] = []"
    using inst [THEN conjunct1] by simp
  from inst [THEN conjunct2, THEN conjunct1] fetched show ?thesis
    by simp
qed

section \<open>Future dates\<close>

lemma validateForm_VF2_future_invalid:
  assumes "isFutureDate parseDate utcOffset now (vf2_visit_date (vs2_formData st))"
  shows "snd (validateForm_VF2 parseFloat parseDate utcOffset now st) = False
       \<and> err_visit_date (fst (validateForm_VF2 parseFloat parseDate utcOffset now st)) \<noteq> []"
  using assms
  by (simp add: validateForm_VF2_def Let_def split: prod.splits if_splits)

lemma handleSubmit_VF2_future:
  assumes "isFutureDate parseDate utcOffset now (vf2_visit_date (vs2_formData st))"
  shows "fst (handleSubmit_VF2 parseFloat parseDate utcOffset now createVitals errorMessage st)
           = []
       \<and> (\<exists>e. snd (handleSubmit_VF2 parseFloat parseDate utcOffset now createVitals
                    errorMessage st) = FieldErrors e \<and> err_visit_date e \<noteq> [])"
  using validateForm_VF2_future_invalid[OF assms, of parseFloat]
  by (auto simp add: handleSubmit_VF2_def Let_def split: prod.splits)

lemma setHours0_utc_midnight:
  assumes "0 \<le> utcOffset" "utcOffset < msPerDay"
  shows "setHours0 utcOffset (d * msPerDay) = d * msPerDay - utcOffset"
proof -
  have "(d * msPerDay + utcOffset) div msPerDay = d"
    using assms by (simp add: msPerDay_def div_pos_pos_trivial)
  thus ?thesis by (simp add: setHours0_def)
qed

lemma isFutureDate_east_of_UTC:
  assumes "parseDate s = Some (d * msPerDay)"
    and "0 \<le> utcOffset" "utcOffset < msPerDay"
  shows "isFutureDate parseDate utcOffset now s = ((now + utcOffset) div msPerDay < d)"
proof -
  have "setHours0 utcOffset now < setHours0 utcOffset (d * msPerDay)
        \<longleftrightarrow> ((now + utcOffset) div msPerDay) * msPerDay < d * msPerDay"
    using assms by (simp add: setHours0_utc_midnight) (simp add: setHours0_def)
  also have "\<dots> \<longleftrightarrow> (now + utcOffset) div msPerDay < d"
    by (simp add: msPerDay_def)
  finally show ?thesis using assms(1) by (simp add: isFutureDate_def)
qed

text \<open>
  In the later vitals form a visit date that \<open>isFutureDate\<close> reports is rejected with
  a message on the date field and nothing is sent, whatever the existing dates are
  (\<open>handleSubmit_VF2_future\<close>). For a date-only string, which the platform parses as
  midnight UTC of its day \<open>d\<close>, and a time zone at or east of UTC, \<open>isFutureDate\<close> holds
  exactly when \<open>d\<close> is after the current local calendar day
  (\<open>isFutureDate_east_of_UTC\<close>).
\<close>

text \<open>
  West of UTC, midnight UTC of a day lies in the local day before it, and the test of
  the vitals form reports a date from the second day after the current one only.
\<close>

lemma isFutureDate_west_of_UTC:
  assumes "parseDate s = Some (d * msPerDay)"
    and "- msPerDay < utcOffset" "utcOffset < 0"
  shows "isFutureDate parseDate utcOffset now s = ((now + utcOffset) div msPerDay < d - 1)"
proof -
  define d' where "d' = d - 1"
  have "d * msPerDay + utcOffset = d' * msPerDay + (msPerDay + utcOffset)"
    by (simp add: d'_def algebra_simps)
  moreover have "(d' * msPerDay + (msPerDay + utcOffset)) div msPerDay = d'"
    using assms(2,3) by (simp add: msPerDay_def div_pos_pos_trivial)
  ultimately have "(d * msPerDay + utcOffset) div msPerDay = d'"
    by (simp only:)
  hence "setHours0 utcOffset now < setHours0 utcOffset (d * msPerDay)
        \<longleftrightarrow> ((now + utcOffset) div msPerDay) * msPerDay < d' * msPerDay"
    by (simp add: setHours0_def)
  also have "\<dots> \<longleftrightarrow> (now + utcOffset) div msPerDay < d'"
    by (simp add: msPerDay_def)
  finally show ?thesis using assms(1) by (simp add: isFutureDate_def d'_def)
qed

text \<open>
  West of UTC the calendar day in UTC is the next local day during the last hours of
  the local day.
\<close>

lemma utc_day_ahead_of_local_day:
  assumes "- msPerDay < utcOffset" "utcOffset < 0" "now mod msPerDay < - utcOffset"
  shows "localDay utcOffset now = now div msPerDay - 1"
proof -
  define k where "k = now div msPerDay"
  define r where "r = now mod msPerDay"
  have now: "now = k * msPerDay + r" by (simp add: k_def r_def)
  have r: "0 \<le> r" "r < - utcOffset" using assms(3) by (simp_all add: r_def msPerDay_def)
  have "now + utcOffset = (k - 1) * msPerDay + (msPerDay + r + utcOffset)"
    by (simp add: now algebra_simps)
  moreover have "((k - 1) * msPerDay + (msPerDay + r + utcOffset)) div msPerDay = k - 1"
    using assms(1) r by (simp add: msPerDay_def div_pos_pos_trivial)
  ultimately have "(now + utcOffset) div msPerDay = k - 1" by (simp only:)
  thus ?thesis by (simp add: localDay_def k_def)
qed

text \<open>
  Claim C7, evaluated at its failing input. The time zone is five hours west of UTC
  and the local time is 20:00 on 2024-01-10 (day 19732), which is 01:00 on 2024-01-11
  in UTC. The general assessment form starts with the visit date 2024-01-11, the UTC
  day, which is also the \<open>max\<close> of its date input, so the browser lets it through;
  \<open>handleSubmit\<close> has no test of the date against the current day and sends the record
  for 2024-01-11, a date after the current calendar date. The test of the vitals form,
  \<open>isFutureDate\<close>, does not report this date either.
\<close>

theorem general_form_sends_next_day_west_of_UTC:
  "localDay (- 18000000) (19733 * msPerDay + 3600000) = 19732
   \<and> (\<lambda>s. if s = ''2024-01-11'' then Some (19733 * msPerDay)
           else if s = ''2024-01-10'' then Some (19732 * msPerDay) else None) ''2024-01-11''
       = Some (19733 * msPerDay)
   \<and> ga_visit_date (initialFormData_GA2
         (\<lambda>d. if d = 19733 then ''2024-01-11'' else if d = 19732 then ''2024-01-10'' else [])
         (19733 * msPerDay + 3600000)) = ''2024-01-11''
   \<and> dateInputAccepts
        (\<lambda>s. if s = ''2024-01-11'' then Some (19733 * msPerDay)
             else if s = ''2024-01-10'' then Some (19732 * msPerDay) else None)
        (utcToday
           (\<lambda>d. if d = 19733 then ''2024-01-11'' else if d = 19732 then ''2024-01-10'' else [])
           (19733 * msPerDay + 3600000))
        ''2024-01-11''
   \<and> fst (handleSubmit_GA2 (\<lambda>d. Inr JNull :: unit + json) (\<lambda>e. ''failed'')
        \<lparr> gs_patient = Some \<lparr> p_id = ''7'', p_patient_id = ''PAT001'',
                               p_first_name = ''Ann'', p_last_name = ''Lee'' \<rparr>,
          gs_formData =
            (initialFormData_GA2
               (\<lambda>d. if d = 19733 then ''2024-01-11''
                    else if d = 19732 then ''2024-01-10'' else [])
               (19733 * msPerDay + 3600000))
            \<lparr> ga_general_health := ''Good'', ga_using_drugs := ''No'' \<rparr>,
          gs_existingDates = [] \<rparr>)
     = [\<lparr> gd_patient_id = ''7'', gd_visit_date = ''2024-01-11'',
          gd_general_health = ''Good'', gd_using_drugs = ''No'', gd_comments = [] \<rparr>]
   \<and> \<not> isFutureDate
        (\<lambda>s. if s = ''2024-01-11'' then Some (19733 * msPerDay)
             else if s = ''2024-01-10'' then Some (19732 * msPerDay) else None)
        (- 18000000) (19733 * msPerDay + 3600000) ''2024-01-11''"
  by (simp add: localDay_def utcToday_def initialFormData_GA2_def dateInputAccepts_def
      isFutureDate_def setHours0_def msPerDay_def handleSubmit_GA2_def
      trim_def isWhiteSpace_def)


section \<open>Aggregator\<close>

lemma mset_insertSorted: "mset (insertSorted r x xs) = add_mset x (mset xs)"
  by (induction xs) simp_all

lemma mset_jsSort: "mset (jsSort c xs) = mset xs"
  by (induction xs) (simp_all add: jsSort_def mset_insertSorted)

lemma set_jsSort: "set (jsSort c xs) = set xs"
  using mset_jsSort[of c xs] by (metis set_mset_mset)

lemma length_jsSort: "length (jsSort c xs) = length xs"
  using mset_jsSort[of c xs] by (metis size_mset)

lemma set_insertSorted: "set (insertSorted r x xs) = insert x (set xs)"
  using mset_insertSorted[of r x xs] by (metis set_mset_add_mset_insert set_mset_mset)

lemma sorted_insertSorted:
  fixes key :: "'a \<Rightarrow> int"
  assumes "sorted_wrt (\<lambda>a b. key b \<le> key a) xs"
  shows "sorted_wrt (\<lambda>a b. key b \<le> key a) (insertSorted (\<lambda>a b. key b \<le> key a) x xs)"
  using assms
proof (induction xs)
  case Nil
  show ?case by simp
next
  case (Cons y ys)
  show ?case
  proof (cases "key y \<le> key x")
    case True
    with Cons.prems show ?thesis by (auto intro: order_trans)
  next
    case False
    with Cons show ?thesis by (auto simp add: set_insertSorted)
  qed
qed

lemma jsSort_by_key:
  fixes key :: "'a \<Rightarrow> int"
  assumes "\<And>a b. c a b = Num (of_int (key b - key a))"
  shows "jsSort c xs = foldr (insertSorted (\<lambda>a b. key b \<le> key a)) xs []"
proof -
  have "(\<lambda>a b. \<not> jgt (c a b) (Num 0)) = (\<lambda>a b. key b \<le> key a)"
    by (intro ext) (simp add: assms jgt_def not_less)
  thus ?thesis by (simp add: jsSort_def)
qed

lemma sorted_jsSort:
  fixes key :: "'a \<Rightarrow> int"
  assumes "\<And>a b. c a b = Num (of_int (key b - key a))"
  shows "sorted_wrt (\<lambda>a b. key b \<le> key a) (jsSort c xs)"
  unfolding jsSort_by_key[OF assms]
  by (induction xs) (simp_all add: sorted_insertSorted)

lemma jsSort_head_newest:
  fixes key :: "'a \<Rightarrow> int"
  assumes "\<And>a b. c a b = Num (of_int (key b - key a))"
    and "jsSort c xs = latest # rest"
  shows "latest \<in> set xs \<and> (\<forall>x \<in> set xs. key x \<le> key latest)"
proof -
  have s: "sorted_wrt (\<lambda>a b. key b \<le> key a) (latest # rest)"
    using sorted_jsSort[where c = c and key = key and xs = xs, OF assms(1)] assms(2) by simp
  have "set xs = insert latest (set rest)"
    using set_jsSort[of c xs] assms(2) by simp
  with s show ?thesis by auto
qed

lemma no_None_nth:
  "\<not> list_ex (\<lambda>row. row = None) (map f xs) \<Longrightarrow> i < length xs \<Longrightarrow> f (xs ! i) \<noteq> None"
  by (induction xs arbitrary: i) (auto simp add: nth_Cons split: nat.splits)

lemmas listing_eval =
  fetchPatients_PL_def fetchPatients_PL2_def patientsArray_PL2_def processPatientData_def
  basicPatient_PL_def patientWithDetails_PL_def assessmentDetails_PL_def
  fetchPatientVitals_PL2_def fetchPatientAssessments_PL2_def settledRecords_def
  extractArrayFromResponse_PL_def inlineArray_def getProp_def hasNoProperties_def orElse_def
  hasName_def jsSort_def compareCreated_PL2_def createdValue_def getDateValue_def
  compareByDate_PL_def compareAssessments_PL2_def tagged_def timeDiff_def jgt_def
  getBmiStatus_PL2_def Let_def


text \<open>
  Claim C3, as amended. The first patient listing returns one row per element of the
  patients response, and its i-th row is the enriched row of the i-th element. The
  second listing returns the rows of the elements that have a first or last name,
  sorted by creation date, newest first: a permutation of the kept rows, not the
  input order.
\<close>

theorem fan_in_ordering:
  "(fetchPatients_PL parseFloat dateTime be = Some rows \<and> be_getPatients be = Inr data \<longrightarrow>
      length rows = length (extractArrayFromResponse_PL data)
      \<and> (\<forall>i < length rows.
            basicPatient_PL (extractArrayFromResponse_PL data ! i) \<noteq> None
            \<and> rows ! i = patientWithDetails_PL parseFloat dateTime be
                           (the (basicPatient_PL (extractArrayFromResponse_PL data ! i)))))
   \<and> (fetchPatients_PL2 parseFloat dateTime fallbackId be = Some sortedRows
        \<and> be_getPatients be = Inr data \<longrightarrow>
      mset sortedRows = mset (filter hasName
                     (map (\<lambda>p. the (processPatientData parseFloat dateTime fallbackId be p))
                        (patientsArray_PL2 data)))
      \<and> sorted_wrt (\<lambda>a b. createdValue dateTime b \<le> createdValue dateTime a) sortedRows)"
proof (intro conjI impI; elim conjE)
  assume a: "fetchPatients_PL parseFloat dateTime be = Some rows" "be_getPatients be = Inr data"
  let ?arr = "extractArrayFromResponse_PL data"
  from a have ok: "\<not> list_ex (\<lambda>row. row = None) (map basicPatient_PL ?arr)"
    and rows: "rows = map (patientWithDetails_PL parseFloat dateTime be)
                        (map the (map basicPatient_PL ?arr))"
    by (auto simp add: fetchPatients_PL_def Let_def split: if_splits)
  from rows show "length rows = length ?arr" by simp
  show "\<forall>i < length rows.
            basicPatient_PL (?arr ! i) \<noteq> None
            \<and> rows ! i = patientWithDetails_PL parseFloat dateTime be
                           (the (basicPatient_PL (?arr ! i)))"
  proof (intro allI impI)
    fix i assume "i < length rows"
    hence i: "i < length ?arr" using rows by simp
    with ok have "basicPatient_PL (?arr ! i) \<noteq> None"
      by (rule no_None_nth)
    moreover from i rows have "rows ! i = patientWithDetails_PL parseFloat dateTime be
                           (the (basicPatient_PL (?arr ! i)))" by simp
    ultimately show "basicPatient_PL (?arr ! i) \<noteq> None
            \<and> rows ! i = patientWithDetails_PL parseFloat dateTime be
                           (the (basicPatient_PL (?arr ! i)))" by simp
  qed
next
  assume a: "fetchPatients_PL2 parseFloat dateTime fallbackId be = Some sortedRows"
    "be_getPatients be = Inr data"
  hence sortedRows: "sortedRows = jsSort (compareCreated_PL2 dateTime) (filter hasName
                     (map the (map (processPatientData parseFloat dateTime fallbackId be)
                        (patientsArray_PL2 data))))"
    by (auto simp add: fetchPatients_PL2_def Let_def split: if_splits)
  show "mset sortedRows = mset (filter hasName
                     (map (\<lambda>p. the (processPatientData parseFloat dateTime fallbackId be p))
                        (patientsArray_PL2 data)))"
    unfolding sortedRows by (simp add: mset_jsSort comp_def)
  show "sorted_wrt (\<lambda>a b. createdValue dateTime b \<le> createdValue dateTime a) sortedRows"
    unfolding sortedRows by (rule sorted_jsSort) (simp add: compareCreated_PL2_def)
qed

theorem fan_in_ordering_witness:
  "fetchPatients_PL (\<lambda>s. NaN) (\<lambda>v. None)
     \<lparr> be_getPatients = Inr (JArr
          [JObj [(''id'', JStr ''a1''), (''first_name'', JStr ''Ann'')],
           JObj [(''id'', JStr ''b2''), (''first_name'', JStr ''Ben'')]]),
       be_getVitals = (\<lambda>i. Inl ()),
       be_getOverweightAssessments = (\<lambda>i. Inl ()),
       be_getGeneralAssessments = (\<lambda>i. Inl ()) \<rparr> \<noteq> None
   \<and> length (the (fetchPatients_PL (\<lambda>s. NaN) (\<lambda>v. None)
     \<lparr> be_getPatients = Inr (JArr
          [JObj [(''id'', JStr ''a1''), (''first_name'', JStr ''Ann'')],
           JObj [(''id'', JStr ''b2''), (''first_name'', JStr ''Ben'')]]),
       be_getVitals = (\<lambda>i. Inl ()),
       be_getOverweightAssessments = (\<lambda>i. Inl ()),
       be_getGeneralAssessments = (\<lambda>i. Inl ()) \<rparr>)) = 2
   \<and> fetchPatients_PL2 (\<lambda>s. NaN) (\<lambda>v. None) ''PAT000000''
     \<lparr> be_getPatients = Inr (JArr
          [JObj [(''id'', JStr ''a1''), (''first_name'', JStr ''Ann'')],
           JObj [(''id'', JStr ''b2''), (''first_name'', JStr ''Ben'')]]),
       be_getVitals = (\<lambda>i. Inl ()),
       be_getOverweightAssessments = (\<lambda>i. Inl ()),
       be_getGeneralAssessments = (\<lambda>i. Inl ()) \<rparr> \<noteq> None
   \<and> sorted_wrt (\<lambda>a b. createdValue (\<lambda>v. None) b \<le> createdValue (\<lambda>v. None) a)
       (the (fetchPatients_PL2 (\<lambda>s. NaN) (\<lambda>v. None) ''PAT000000''
     \<lparr> be_getPatients = Inr (JArr
          [JObj [(''id'', JStr ''a1''), (''first_name'', JStr ''Ann'')],
           JObj [(''id'', JStr ''b2''), (''first_name'', JStr ''Ben'')]]),
       be_getVitals = (\<lambda>i. Inl ()),
       be_getOverweightAssessments = (\<lambda>i. Inl ()),
       be_getGeneralAssessments = (\<lambda>i. Inl ()) \<rparr>))"
proof -
  let ?be = "\<lparr> be_getPatients = Inr (JArr
          [JObj [(''id'', JStr ''a1''), (''first_name'', JStr ''Ann'')],
           JObj [(''id'', JStr ''b2''), (''first_name'', JStr ''Ben'')]]),
       be_getVitals = (\<lambda>i. Inl ()),
       be_getOverweightAssessments = (\<lambda>i. Inl ()),
       be_getGeneralAssessments = (\<lambda>i. Inl ()) \<rparr> :: unit backend"
  have some: "fetchPatients_PL (\<lambda>s. NaN) (\<lambda>v. None) ?be \<noteq> None"
    by (simp add: listing_eval)
  hence eq: "fetchPatients_PL (\<lambda>s. NaN) (\<lambda>v. None) ?be
             = Some (the (fetchPatients_PL (\<lambda>s. NaN) (\<lambda>v. None) ?be))"
    by simp
  have "length (the (fetchPatients_PL (\<lambda>s. NaN) (\<lambda>v. None) ?be))
        = length (extractArrayFromResponse_PL (JArr
          [JObj [(''id'', JStr ''a1''), (''first_name'', JStr ''Ann'')],
           JObj [(''id'', JStr ''b2''), (''first_name'', JStr ''Ben'')]]))"
    using fan_in_ordering [where be = ?be and parseFloat = "\<lambda>s. NaN" and dateTime = "\<lambda>v. None"
        and rows = "the (fetchPatients_PL (\<lambda>s. NaN) (\<lambda>v. None) ?be)"
        and data = "JArr
          [JObj [(''id'', JStr ''a1''), (''first_name'', JStr ''Ann'')],
           JObj [(''id'', JStr ''b2''), (''first_name'', JStr ''Ben'')]]", THEN conjunct1]
      eq
    by simp
  hence len: "length (the (fetchPatients_PL (\<lambda>s. NaN) (\<lambda>v. None) ?be)) = 2"
    by (simp add: extractArrayFromResponse_PL_def)
  have some2: "fetchPatients_PL2 (\<lambda>s. NaN) (\<lambda>v. None) ''PAT000000'' ?be \<noteq> None"
    by (simp add: listing_eval)
  hence eq2: "fetchPatients_PL2 (\<lambda>s. NaN) (\<lambda>v. None) ''PAT000000'' ?be
             = Some (the (fetchPatients_PL2 (\<lambda>s. NaN) (\<lambda>v. None) ''PAT000000'' ?be))"
    by simp
  have sorted2: "sorted_wrt (\<lambda>a b. createdValue (\<lambda>v. None) b \<le> createdValue (\<lambda>v. None) a)
       (the (fetchPatients_PL2 (\<lambda>s. NaN) (\<lambda>v. None) ''PAT000000'' ?be))"
    using fan_in_ordering [where be = ?be and parseFloat = "\<lambda>s. NaN"
        and dateTime = "\<lambda>v. None" and fallbackId = "''PAT000000''"
        and sortedRows = "the (fetchPatients_PL2 (\<lambda>s. NaN) (\<lambda>v. None) ''PAT000000'' ?be)"
        and data = "JArr
          [JObj [(''id'', JStr ''a1''), (''first_name'', JStr ''Ann'')],
           JObj [(''id'', JStr ''b2''), (''first_name'', JStr ''Ben'')]]", THEN conjunct2]
      eq2
    by simp
  from some len some2 sorted2 show ?thesis by simp
qed


text \<open>
  The claim as stated fails for the second listing: of two patients in the order Ann
  (created 2024-01-01), Ben (created 2024-02-01) the first row is Ben's.
\<close>

theorem second_listing_reorders_patients:
  "map_option (map pr_first_name)
     (fetchPatients_PL2 (\<lambda>s. NaN)
        (\<lambda>v. if v = JStr ''2024-01-01'' then Some 1704067200000
             else if v = JStr ''2024-02-01'' then Some 1706745600000 else None)
        ''PAT000000''
        \<lparr> be_getPatients = Inr (JArr
             [JObj [(''id'', JStr ''a1''), (''first_name'', JStr ''Ann''),
                    (''created_at'', JStr ''2024-01-01'')],
              JObj [(''id'', JStr ''b2''), (''first_name'', JStr ''Ben''),
                    (''created_at'', JStr ''2024-02-01'')]]),
          be_getVitals = (\<lambda>i. Inl ()),
          be_getOverweightAssessments = (\<lambda>i. Inl ()),
          be_getGeneralAssessments = (\<lambda>i. Inl ()) \<rparr>)
   = Some [JStr ''Ben'', JStr ''Ann'']"
  by (simp add: listing_eval)


section \<open>Latest assessment\<close>

text \<open>
  In the second listing the reported assessment is a most recent one among the records
  of both kinds, by \<open>visit_date\<close> with \<open>created_at\<close> as the fallback.
\<close>

lemma fetchPatientAssessments_PL2_newest:
  assumes "fetchPatientAssessments_PL2 dateTime overweightResponse generalResponse = Some a"
  defines "entries \<equiv> map (tagged ''overweight'') (settledRecords overweightResponse)
                      @ map (tagged ''general'') (settledRecords generalResponse)"
  defines "dateOf \<equiv> \<lambda>e. getDateValue dateTime
                          (orElse (ae_visit_date e) (getProp (ae_record e) ''created_at''))"
  shows "a \<in> set entries \<and> (\<forall>e \<in> set entries. dateOf e \<le> dateOf a)"
proof -
  from assms(1) obtain rest where
    "jsSort (compareAssessments_PL2 dateTime) entries = a # rest"
    by (auto simp add: fetchPatientAssessments_PL2_def Let_def entries_def
        split: if_splits list.splits)
  moreover have "\<And>x y. compareAssessments_PL2 dateTime x y = Num (of_int (dateOf y - dateOf x))"
    by (simp add: compareAssessments_PL2_def dateOf_def Let_def)
  ultimately show ?thesis
    using jsSort_head_newest[where c = "compareAssessments_PL2 dateTime" and key = dateOf
        and xs = entries and latest = a and rest = rest]
    by blast
qed


text \<open>
  In the first listing an overweight assessment is reported whenever the patient has
  one; the general assessments are not fetched then.
\<close>

lemma assessmentDetails_PL_overweight_first:
  assumes "be_getOverweightAssessments be (pr_id patient) = Inr overweightData"
    and "extractArrayFromResponse_PL overweightData \<noteq> []"
    and "\<not> list_ex hasNoProperties (extractArrayFromResponse_PL overweightData)"
  shows "pr_last_assessment_type (assessmentDetails_PL dateTime be patient) = Some ''Overweight''"
proof -
  have "length (jsSort (compareByDate_PL dateTime) (extractArrayFromResponse_PL overweightData))
        = length (extractArrayFromResponse_PL overweightData)"
    by (rule length_jsSort)
  with assms(2) obtain latest rest where
    "jsSort (compareByDate_PL dateTime) (extractArrayFromResponse_PL overweightData)
     = latest # rest"
    by (cases "jsSort (compareByDate_PL dateTime) (extractArrayFromResponse_PL overweightData)")
      auto
  with assms show ?thesis
    by (simp add: assessmentDetails_PL_def Let_def)
qed

text \<open>
  Claim C2, evaluated at its failing input. A patient has one overweight assessment
  of 2023-01-05 and one general assessment of 2024-03-01. The first listing reports the
  overweight assessment of 2023-01-05 as the last assessment; the second listing, on
  the same responses, reports the general assessment of 2024-03-01.
\<close>

theorem overweight_record_hides_newer_general_record:
  "map_option (map (\<lambda>row. (pr_last_assessment_type row, pr_last_assessment_date row)))
     (fetchPatients_PL (\<lambda>s. NaN)
        (\<lambda>v. if v = JStr ''2023-01-05'' then Some 1672876800000
             else if v = JStr ''2024-03-01'' then Some 1709251200000 else None)
        \<lparr> be_getPatients = Inr (JArr
             [JObj [(''id'', JStr ''a1''), (''patient_id'', JStr ''PAT001''),
                    (''first_name'', JStr ''Ann'')]]),
          be_getVitals = (\<lambda>i. Inr (JArr [])),
          be_getOverweightAssessments =
            (\<lambda>i. Inr (JArr [JObj [(''visit_date'', JStr ''2023-01-05'')]])),
          be_getGeneralAssessments =
            (\<lambda>i. Inr (JArr [JObj [(''visit_date'', JStr ''2024-03-01'')]])) \<rparr>)
   = Some [(Some ''Overweight'', JStr ''2023-01-05'')]
  \<and> map_option (map (\<lambda>row. (pr_last_assessment_type row, pr_last_assessment_date row)))
     (fetchPatients_PL2 (\<lambda>s. NaN)
        (\<lambda>v. if v = JStr ''2023-01-05'' then Some 1672876800000
             else if v = JStr ''2024-03-01'' then Some 1709251200000 else None)
        ''PAT000000''
        \<lparr> be_getPatients = Inr (JArr
             [JObj [(''id'', JStr ''a1''), (''patient_id'', JStr ''PAT001''),
                    (''first_name'', JStr ''Ann'')]]),
          be_getVitals = (\<lambda>i. Inr (JArr []) :: unit + json),
          be_getOverweightAssessments =
            (\<lambda>i. Inr (JArr [JObj [(''visit_date'', JStr ''2023-01-05'')]])),
          be_getGeneralAssessments =
            (\<lambda>i. Inr (JArr [JObj [(''visit_date'', JStr ''2024-03-01'')]])) \<rparr>)
   = Some [(Some ''General Assessment'', JStr ''2024-03-01'')]"
  by (simp add: listing_eval)


end
